theory Spec2Isabelle
  imports Main "HOL-Library.Word" "HOL-Library.Sublist"
begin

section \<open>The HCI layer of system/gd/hci/hci_layer.cc\<close>

text \<open>
  The command engine and the event router of \<^verbatim>\<open>HciLayer::impl\<close>, as a state machine whose
  steps are the tasks that run on the module's handler. Every method of \<^verbatim>\<open>impl\<close> is a
  function from the state to either the updated state or a fatal abort. What the layer
  does to its surroundings (bytes handed to the HAL, callbacks invoked, the debug log) is
  recorded, in order, in the field \<open>effects\<close> of the state.
\<close>

subsection \<open>Packets, views and the packet codec\<close>

type_synonym bytes = "8 word list"

type_synonym OpCode = "16 word"

text \<open>
  Modelled from the spec: the enumerator \<^verbatim>\<open>OpCode::NONE\<close> belongs to the packet definitions,
  which are not part of hci_layer.cc. The spec calls it the sentinel of \<open>outstanding\<close>. The
  theorems hold whatever its value is; only the runs on concrete packets unfold it.
\<close>

definition NONE :: OpCode where
  "NONE = 0"

datatype EventCode =
    COMMAND_COMPLETE
  | COMMAND_STATUS
  | LE_META_EVENT
  | PAGE_SCAN_REPETITION_MODE_CHANGE
  | MAX_SLOTS_CHANGE
  | VENDOR_SPECIFIC
  | EventCode_other "8 word"

type_synonym SubeventCode = "8 word"

datatype ErrorCode = SUCCESS | ErrorCode_other "8 word"

text \<open>A command builder is what its \<^verbatim>\<open>Serialize\<close> writes.\<close>

record CommandPacketBuilder =
  Serialize :: bytes

record EventPacketView =
  GetEventCode :: EventCode
  GetPayload :: bytes

record CommandStatusView =
  GetNumHciCommandPackets :: "8 word"
  GetCommandOpCode :: OpCode

record CommandCompleteView =
  GetNumHciCommandPackets :: "8 word"
  GetCommandOpCode :: OpCode
  GetReturnParameters :: bytes

record LeMetaEventView =
  GetSubeventCode :: SubeventCode
  GetLePayload :: bytes

text \<open>
  The generated packet parsers are not part of hci_layer.cc, so they are a parameter of
  every function that parses. Each \<^verbatim>\<open>X::Create\<close> followed by \<^verbatim>\<open>IsValid\<close> is one field:
  \<open>None\<close> when \<^verbatim>\<open>IsValid()\<close> is false, the view (for a command, its opcode) otherwise.
\<close>

record codec =
  CommandPacketView_Create :: "bytes \<Rightarrow> OpCode option"
  CommandStatusView_Create :: "EventPacketView \<Rightarrow> CommandStatusView option"
  CommandCompleteView_Create :: "EventPacketView \<Rightarrow> CommandCompleteView option"
  LeMetaEventView_Create :: "EventPacketView \<Rightarrow> LeMetaEventView option"
  ResetCompleteView_Create :: "CommandCompleteView \<Rightarrow> ErrorCode option"

subsection \<open>Callbacks\<close>

text \<open>
  A callback is either one that \<^verbatim>\<open>Start\<close> binds to a method of \<^verbatim>\<open>impl\<close> on the module's
  handler, or one supplied by a client, known by a number.
\<close>

datatype complete_callback =
    BindOnce_fail_if_reset_complete_not_success
  | Client_on_complete nat

datatype status_callback = Client_on_status nat

datatype event_callback =
    BindOn_on_command_complete
  | BindOn_on_command_status
  | BindOn_on_le_meta_event
  | BindOn_drop
  | Client_event_handler nat

datatype le_event_callback = Client_le_event_handler nat

datatype disconnect_callback = Client_on_disconnect nat

text \<open>
  \<^verbatim>\<open>CommandQueueEntry\<close> has two constructors: one takes a completion callback and sets
  \<^verbatim>\<open>waiting_for_status_\<close> to false, the other takes a status callback and sets it to true.
\<close>

datatype CommandQueueEntry =
    CommandQueueEntry_on_complete CommandPacketBuilder complete_callback
  | CommandQueueEntry_on_status CommandPacketBuilder status_callback

fun command :: "CommandQueueEntry \<Rightarrow> CommandPacketBuilder" where
  "command (CommandQueueEntry_on_complete command_packet on_complete_function) = command_packet"
| "command (CommandQueueEntry_on_status command_packet on_status_function) = command_packet"

fun waiting_for_status :: "CommandQueueEntry \<Rightarrow> bool" where
  "waiting_for_status (CommandQueueEntry_on_complete command_packet on_complete_function) = False"
| "waiting_for_status (CommandQueueEntry_on_status command_packet on_status_function) = True"

subsection \<open>State, effects and aborts\<close>

datatype effect =
    sendHciCommand bytes
  | Invoke_on_status status_callback CommandStatusView
  | Invoke_on_complete complete_callback CommandCompleteView
  | Invoke_event_handler event_callback EventPacketView
  | Invoke_subevent_handler le_event_callback LeMetaEventView
  | LOG_DEBUG_Dropping_unregistered_event EventCode

text \<open>
  Every \<^verbatim>\<open>ASSERT\<close> and \<^verbatim>\<open>ASSERT_LOG\<close> of the file, with the values its message prints.
\<close>

datatype fatal =
    ASSERT_IsValid
  | ASSERT_reset_complete_SUCCESS
  | Timed_out_waiting_for OpCode
  | Unexpected_status_event OpCode
  | Unexpected_command_complete OpCode
  | Waiting_for_got OpCode OpCode
  | Waiting_for_command_complete_got_status OpCode OpCode
  | Waiting_for_command_status_got_complete OpCode OpCode
  | Unhandled_le_event SubeventCode
  | Second_handler_for_event_code EventCode
  | Second_handler_for_subevent_code SubeventCode

text \<open>
  The machine stops either at an abort, or where the code has no defined behaviour:
  \<^verbatim>\<open>erase(find(k))\<close> on a map without the key \<open>k\<close> erases the end iterator. Of the process past
  such a point nothing is known: it need not crash.
\<close>

datatype stop = Abort fatal | Undefined_behaviour

text \<open>
  Modelled from the spec: \<^verbatim>\<open>kHciTimeoutMs\<close> is declared in hci_layer.h, not in hci_layer.cc;
  the spec gives 2000 ms as its default.
\<close>

definition kHciTimeoutMs :: nat where
  "kHciTimeoutMs = 2000"

text \<open>
  The members of \<^verbatim>\<open>HciLayer::impl\<close> of the command and event paths. The alarm is what is
  scheduled on it: the opcode bound to \<^verbatim>\<open>on_hci_timeout\<close> and the delay, or nothing.
\<close>

record impl =
  command_queue :: "CommandQueueEntry list"
  event_handlers :: "EventCode \<rightharpoonup> event_callback"
  subevent_handlers :: "SubeventCode \<rightharpoonup> le_event_callback"
  waiting_command :: OpCode
  command_credits :: "8 word"
  hci_timeout_alarm :: "(OpCode \<times> nat) option"
  effects :: "effect list"

text \<open>A stop carries the effects the process had before it.\<close>

type_synonym result = "(stop \<times> effect list) + impl"

definition abort :: "fatal \<Rightarrow> impl \<Rightarrow> result" where
  "abort e s = Inl (Abort e, effects s)"

definition undefined_behaviour :: "impl \<Rightarrow> result" where
  "undefined_behaviour s = Inl (Undefined_behaviour, effects s)"

definition emit :: "effect \<Rightarrow> impl \<Rightarrow> impl" where
  "emit x s = s\<lparr>effects := effects s @ [x]\<rparr>"

text \<open>The member initialisers: no command waited for, one credit (for the reset).\<close>

definition impl_init :: impl where
  "impl_init = \<lparr>command_queue = [], event_handlers = Map.empty, subevent_handlers = Map.empty,
     waiting_command = NONE, command_credits = 1, hci_timeout_alarm = None, effects = []\<rparr>"

subsection \<open>The methods of impl\<close>

definition on_hci_timeout :: "OpCode \<Rightarrow> impl \<Rightarrow> result" where
  "on_hci_timeout op_code s = abort (Timed_out_waiting_for op_code) s"

definition fail_if_reset_complete_not_success :: "codec \<Rightarrow> CommandCompleteView \<Rightarrow> impl \<Rightarrow> result" where
  "fail_if_reset_complete_not_success cd complete s =
     (case ResetCompleteView_Create cd complete of
        None \<Rightarrow> abort ASSERT_IsValid s
      | Some status \<Rightarrow> if status = SUCCESS then Inr s else abort ASSERT_reset_complete_SUCCESS s)"

definition drop_event :: "EventPacketView \<Rightarrow> impl \<Rightarrow> result" where
  "drop_event event s = Inr s"

definition send_next_command :: "codec \<Rightarrow> impl \<Rightarrow> result" where
  "send_next_command cd s =
     (if command_credits s = 0 then Inr s
      else if waiting_command s \<noteq> NONE then Inr s
      else if length (command_queue s) = 0 then Inr s
      else
        let bytes = Serialize (command (hd (command_queue s)));
            s1 = emit (sendHciCommand bytes) s
        in (case CommandPacketView_Create cd bytes of
              None \<Rightarrow> abort ASSERT_IsValid s1
            | Some op_code \<Rightarrow>
                Inr (s1\<lparr>waiting_command := op_code, command_credits := 0,
                         hci_timeout_alarm := Some (op_code, kHciTimeoutMs)\<rparr>)))"

definition on_command_status :: "codec \<Rightarrow> EventPacketView \<Rightarrow> impl \<Rightarrow> result" where
  "on_command_status cd event s =
     (case CommandStatusView_Create cd event of
        None \<Rightarrow> abort ASSERT_IsValid s
      | Some status_view \<Rightarrow>
          let s1 = s\<lparr>command_credits := CommandStatusView.GetNumHciCommandPackets status_view\<rparr>;
              op_code = CommandStatusView.GetCommandOpCode status_view
          in if op_code = NONE then send_next_command cd s1
             else if command_queue s1 = [] then abort (Unexpected_status_event op_code) s1
             else if waiting_command s1 \<noteq> op_code
               then abort (Waiting_for_got (waiting_command s1) op_code) s1
             else (case hd (command_queue s1) of
                 CommandQueueEntry_on_complete c on_complete \<Rightarrow>
                   abort (Waiting_for_command_complete_got_status (waiting_command s1) op_code) s1
               | CommandQueueEntry_on_status c on_status \<Rightarrow>
                   send_next_command cd
                     ((emit (Invoke_on_status on_status status_view) s1)
                        \<lparr>command_queue := tl (command_queue s1), waiting_command := NONE,
                         hci_timeout_alarm := None\<rparr>)))"

definition on_command_complete :: "codec \<Rightarrow> EventPacketView \<Rightarrow> impl \<Rightarrow> result" where
  "on_command_complete cd event s =
     (case CommandCompleteView_Create cd event of
        None \<Rightarrow> abort ASSERT_IsValid s
      | Some complete_view \<Rightarrow>
          let s1 = s\<lparr>command_credits := CommandCompleteView.GetNumHciCommandPackets complete_view\<rparr>;
              op_code = CommandCompleteView.GetCommandOpCode complete_view
          in if op_code = NONE then send_next_command cd s1
             else if \<not> length (command_queue s1) > 0
               then abort (Unexpected_command_complete op_code) s1
             else if waiting_command s1 \<noteq> op_code
               then abort (Waiting_for_got (waiting_command s1) op_code) s1
             else (case hd (command_queue s1) of
                 CommandQueueEntry_on_status c on_status \<Rightarrow>
                   abort (Waiting_for_command_status_got_complete (waiting_command s1) op_code) s1
               | CommandQueueEntry_on_complete c on_complete \<Rightarrow>
                   send_next_command cd
                     ((emit (Invoke_on_complete on_complete complete_view) s1)
                        \<lparr>command_queue := tl (command_queue s1), waiting_command := NONE,
                         hci_timeout_alarm := None\<rparr>)))"

definition on_le_meta_event :: "codec \<Rightarrow> EventPacketView \<Rightarrow> impl \<Rightarrow> result" where
  "on_le_meta_event cd event s =
     (case LeMetaEventView_Create cd event of
        None \<Rightarrow> abort ASSERT_IsValid s
      | Some meta_event_view \<Rightarrow>
          let subevent_code = GetSubeventCode meta_event_view
          in (case subevent_handlers s subevent_code of
                None \<Rightarrow> abort (Unhandled_le_event subevent_code) s
              | Some h \<Rightarrow> Inr (emit (Invoke_subevent_handler h meta_event_view) s)))"

definition on_hci_event :: "EventPacketView \<Rightarrow> impl \<Rightarrow> result" where
  "on_hci_event event s =
     (let event_code = GetEventCode event
      in (case event_handlers s event_code of
            None \<Rightarrow> Inr (emit (LOG_DEBUG_Dropping_unregistered_event event_code) s)
          | Some h \<Rightarrow> Inr (emit (Invoke_event_handler h event) s)))"

definition handle_enqueue_command_with_complete ::
    "codec \<Rightarrow> CommandPacketBuilder \<Rightarrow> complete_callback \<Rightarrow> impl \<Rightarrow> result" where
  "handle_enqueue_command_with_complete cd cmd on_complete s =
     send_next_command cd
       (s\<lparr>command_queue := command_queue s @ [CommandQueueEntry_on_complete cmd on_complete]\<rparr>)"

definition handle_enqueue_command_with_status ::
    "codec \<Rightarrow> CommandPacketBuilder \<Rightarrow> status_callback \<Rightarrow> impl \<Rightarrow> result" where
  "handle_enqueue_command_with_status cd cmd on_status s =
     send_next_command cd
       (s\<lparr>command_queue := command_queue s @ [CommandQueueEntry_on_status cmd on_status]\<rparr>)"

definition handle_register_event_handler :: "EventCode \<Rightarrow> event_callback \<Rightarrow> impl \<Rightarrow> result" where
  "handle_register_event_handler event_code event_handler s =
     (if event_handlers s event_code \<noteq> None then abort (Second_handler_for_event_code event_code) s
      else Inr (s\<lparr>event_handlers := (event_handlers s)(event_code \<mapsto> event_handler)\<rparr>))"

definition handle_unregister_event_handler :: "EventCode \<Rightarrow> impl \<Rightarrow> result" where
  "handle_unregister_event_handler event_code s =
     (case event_handlers s event_code of
        None \<Rightarrow> undefined_behaviour s
      | Some h \<Rightarrow> Inr (s\<lparr>event_handlers := (event_handlers s)(event_code := None)\<rparr>))"

definition handle_register_le_event_handler ::
    "SubeventCode \<Rightarrow> le_event_callback \<Rightarrow> impl \<Rightarrow> result" where
  "handle_register_le_event_handler subevent_code subevent_handler s =
     (if subevent_handlers s subevent_code \<noteq> None
        then abort (Second_handler_for_subevent_code subevent_code) s
      else Inr (s\<lparr>subevent_handlers := (subevent_handlers s)(subevent_code \<mapsto> subevent_handler)\<rparr>))"

definition handle_unregister_le_event_handler :: "SubeventCode \<Rightarrow> impl \<Rightarrow> result" where
  "handle_unregister_le_event_handler subevent_code s =
     (case subevent_handlers s subevent_code of
        None \<Rightarrow> undefined_behaviour s
      | Some h \<Rightarrow> Inr (s\<lparr>subevent_handlers := (subevent_handlers s)(subevent_code := None)\<rparr>))"

subsection \<open>Tasks of the module's handler\<close>

text \<open>
  All of the above runs on one handler, one task after the other. The tasks are the calls
  that \<^verbatim>\<open>CallOn\<close> posts, the methods bound into the callbacks that \<^verbatim>\<open>Start\<close> registers, and
  the closure scheduled on the alarm.
\<close>

datatype task =
    Handle_enqueue_command_with_complete CommandPacketBuilder complete_callback
  | Handle_enqueue_command_with_status CommandPacketBuilder status_callback
  | Handle_register_event_handler EventCode event_callback
  | Handle_unregister_event_handler EventCode
  | Handle_register_le_event_handler SubeventCode le_event_callback
  | Handle_unregister_le_event_handler SubeventCode
  | On_hci_event EventPacketView
  | On_command_complete EventPacketView
  | On_command_status EventPacketView
  | On_le_meta_event EventPacketView
  | Drop EventPacketView
  | Fail_if_reset_complete_not_success CommandCompleteView
  | Hci_timeout_alarm_fires

fun run_task :: "codec \<Rightarrow> task \<Rightarrow> impl \<Rightarrow> result" where
  "run_task cd (Handle_enqueue_command_with_complete cmd on_complete) s =
     handle_enqueue_command_with_complete cd cmd on_complete s"
| "run_task cd (Handle_enqueue_command_with_status cmd on_status) s =
     handle_enqueue_command_with_status cd cmd on_status s"
| "run_task cd (Handle_register_event_handler event_code h) s =
     handle_register_event_handler event_code h s"
| "run_task cd (Handle_unregister_event_handler event_code) s =
     handle_unregister_event_handler event_code s"
| "run_task cd (Handle_register_le_event_handler subevent_code h) s =
     handle_register_le_event_handler subevent_code h s"
| "run_task cd (Handle_unregister_le_event_handler subevent_code) s =
     handle_unregister_le_event_handler subevent_code s"
| "run_task cd (On_hci_event event) s = on_hci_event event s"
| "run_task cd (On_command_complete event) s = on_command_complete cd event s"
| "run_task cd (On_command_status event) s = on_command_status cd event s"
| "run_task cd (On_le_meta_event event) s = on_le_meta_event cd event s"
| "run_task cd (Drop event) s = drop_event event s"
| "run_task cd (Fail_if_reset_complete_not_success complete) s =
     fail_if_reset_complete_not_success cd complete s"
| "run_task cd Hci_timeout_alarm_fires s =
     (case hci_timeout_alarm s of
        None \<Rightarrow> Inr s
      | Some (op_code, ms) \<Rightarrow> on_hci_timeout op_code s)"

text \<open>The handler runs its tasks in order, up to the first stop.\<close>

fun run_tasks :: "codec \<Rightarrow> task list \<Rightarrow> impl \<Rightarrow> result" where
  "run_tasks cd [] s = Inr s"
| "run_tasks cd (t # ts) s =
     (case run_task cd t s of
        Inl e \<Rightarrow> Inl e
      | Inr s' \<Rightarrow> run_tasks cd ts s')"

text \<open>
  Invoking a callback posts to the handler it is bound to. For the callbacks that \<^verbatim>\<open>Start\<close>
  binds on the module's handler that is a task of this machine; a client's callback runs
  elsewhere.
\<close>

fun event_callback_task :: "event_callback \<Rightarrow> EventPacketView \<Rightarrow> task option" where
  "event_callback_task BindOn_on_command_complete event = Some (On_command_complete event)"
| "event_callback_task BindOn_on_command_status event = Some (On_command_status event)"
| "event_callback_task BindOn_on_le_meta_event event = Some (On_le_meta_event event)"
| "event_callback_task BindOn_drop event = Some (Drop event)"
| "event_callback_task (Client_event_handler k) event = None"

fun complete_callback_task :: "complete_callback \<Rightarrow> CommandCompleteView \<Rightarrow> task option" where
  "complete_callback_task BindOnce_fail_if_reset_complete_not_success complete =
     Some (Fail_if_reset_complete_not_success complete)"
| "complete_callback_task (Client_on_complete k) complete = None"

subsection \<open>The methods of HciLayer\<close>

text \<open>
  The public methods only post: each is the list of tasks it puts on the handler (through
  \<^verbatim>\<open>CallOn\<close>), in order. The facade getters also return a pointer to one of the command
  interfaces held by \<^verbatim>\<open>impl\<close>.
\<close>

definition EnqueueCommand_on_complete :: "CommandPacketBuilder \<Rightarrow> complete_callback \<Rightarrow> task list" where
  "EnqueueCommand_on_complete cmd on_complete = [Handle_enqueue_command_with_complete cmd on_complete]"

definition EnqueueCommand_on_status :: "CommandPacketBuilder \<Rightarrow> status_callback \<Rightarrow> task list" where
  "EnqueueCommand_on_status cmd on_status = [Handle_enqueue_command_with_status cmd on_status]"

definition RegisterEventHandler :: "EventCode \<Rightarrow> event_callback \<Rightarrow> task list" where
  "RegisterEventHandler event_code event_handler = [Handle_register_event_handler event_code event_handler]"

definition UnregisterEventHandler :: "EventCode \<Rightarrow> task list" where
  "UnregisterEventHandler event_code = [Handle_unregister_event_handler event_code]"

definition RegisterLeEventHandler :: "SubeventCode \<Rightarrow> le_event_callback \<Rightarrow> task list" where
  "RegisterLeEventHandler subevent_code event_handler =
     [Handle_register_le_event_handler subevent_code event_handler]"

definition UnregisterLeEventHandler :: "SubeventCode \<Rightarrow> task list" where
  "UnregisterLeEventHandler subevent_code = [Handle_unregister_le_event_handler subevent_code]"

datatype command_interface =
    acl_connection_manager_interface
  | le_acl_connection_manager_interface

text \<open>
  The tables \<^verbatim>\<open>AclConnectionEvents\<close> and \<^verbatim>\<open>LeConnectionManagementEvents\<close> are declared in
  hci_layer.h, not in hci_layer.cc: they are the first argument.
\<close>

fun register_each :: "EventCode list \<Rightarrow> event_callback \<Rightarrow> task list" where
  "register_each [] event_handler = []"
| "register_each (event # events) event_handler =
     RegisterEventHandler event event_handler @ register_each events event_handler"

fun register_each_le :: "SubeventCode list \<Rightarrow> le_event_callback \<Rightarrow> task list" where
  "register_each_le [] event_handler = []"
| "register_each_le (event # events) event_handler =
     RegisterLeEventHandler event event_handler @ register_each_le events event_handler"

definition GetAclConnectionInterface ::
    "EventCode list \<Rightarrow> event_callback \<Rightarrow> disconnect_callback \<Rightarrow> task list \<times> command_interface" where
  "GetAclConnectionInterface AclConnectionEvents event_handler on_disconnect =
     (register_each AclConnectionEvents event_handler, acl_connection_manager_interface)"

definition GetLeAclConnectionInterface ::
    "SubeventCode list \<Rightarrow> le_event_callback \<Rightarrow> disconnect_callback \<Rightarrow> task list \<times> command_interface" where
  "GetLeAclConnectionInterface LeConnectionManagementEvents event_handler on_disconnect =
     (register_each_le LeConnectionManagementEvents event_handler, le_acl_connection_manager_interface)"

text \<open>
  What \<^verbatim>\<open>Start\<close> posts after it has built \<open>impl_init\<close>. The argument is the command that
  \<^verbatim>\<open>ResetBuilder::Create()\<close> builds. (The registrations with the ACL queue and with the HAL
  are outside this model.)
\<close>

definition Start :: "CommandPacketBuilder \<Rightarrow> task list" where
  "Start reset =
     RegisterEventHandler COMMAND_COMPLETE BindOn_on_command_complete
     @ RegisterEventHandler COMMAND_STATUS BindOn_on_command_status
     @ RegisterEventHandler LE_META_EVENT BindOn_on_le_meta_event
     @ RegisterEventHandler PAGE_SCAN_REPETITION_MODE_CHANGE BindOn_drop
     @ RegisterEventHandler MAX_SLOTS_CHANGE BindOn_drop
     @ RegisterEventHandler VENDOR_SPECIFIC BindOn_drop
     @ EnqueueCommand_on_complete reset BindOnce_fail_if_reset_complete_not_success"

subsection \<open>Observations on a run\<close>

definition effects_of :: "result \<Rightarrow> effect list" where
  "effects_of r = (case r of Inl (e, xs) \<Rightarrow> xs | Inr s \<Rightarrow> effects s)"

fun hal_commands :: "effect list \<Rightarrow> bytes list" where
  "hal_commands [] = []"
| "hal_commands (sendHciCommand b # xs) = b # hal_commands xs"
| "hal_commands (x # xs) = hal_commands xs"

text \<open>The response callbacks of both kinds, as one type, to list them in order.\<close>

datatype sink = Status_sink status_callback | Complete_sink complete_callback

fun sink_of :: "CommandQueueEntry \<Rightarrow> sink" where
  "sink_of (CommandQueueEntry_on_complete c on_complete) = Complete_sink on_complete"
| "sink_of (CommandQueueEntry_on_status c on_status) = Status_sink on_status"

fun invoked_sinks :: "effect list \<Rightarrow> sink list" where
  "invoked_sinks [] = []"
| "invoked_sinks (Invoke_on_status f v # xs) = Status_sink f # invoked_sinks xs"
| "invoked_sinks (Invoke_on_complete f v # xs) = Complete_sink f # invoked_sinks xs"
| "invoked_sinks (x # xs) = invoked_sinks xs"

text \<open>The entries that a list of tasks appends to the queue, in order.\<close>

fun enqueued :: "task list \<Rightarrow> CommandQueueEntry list" where
  "enqueued [] = []"
| "enqueued (Handle_enqueue_command_with_complete cmd f # ts) =
     CommandQueueEntry_on_complete cmd f # enqueued ts"
| "enqueued (Handle_enqueue_command_with_status cmd f # ts) =
     CommandQueueEntry_on_status cmd f # enqueued ts"
| "enqueued (t # ts) = enqueued ts"

definition opcode_of :: "codec \<Rightarrow> CommandQueueEntry \<Rightarrow> OpCode option" where
  "opcode_of cd e = CommandPacketView_Create cd (Serialize (command e))"

subsection \<open>A codec to run the machine on concrete packets\<close>

text \<open>
  One instance of the codec, after the HCI wire format: a command is its opcode (two
  bytes, low byte first), the length of its parameters and the parameters. The parameters
  of a command status event are a status, the number of command packets and the opcode;
  those of a command complete event are the number of command packets, the opcode and the
  return parameters; those of an LE meta event start with the subevent code.
\<close>

definition opcode_le :: "8 word \<Rightarrow> 8 word \<Rightarrow> OpCode" where
  "opcode_le lo hi = word_of_nat (unat lo + 256 * unat hi)"

fun wire_CommandPacketView :: "bytes \<Rightarrow> OpCode option" where
  "wire_CommandPacketView (lo # hi # len # payload) =
     (if unat len = length payload then Some (opcode_le lo hi) else None)"
| "wire_CommandPacketView bs = None"

fun wire_CommandStatusView :: "EventPacketView \<Rightarrow> CommandStatusView option" where
  "wire_CommandStatusView event =
     (if GetEventCode event \<noteq> COMMAND_STATUS then None
      else (case GetPayload event of
              [status, n, lo, hi] \<Rightarrow>
                Some \<lparr>CommandStatusView.GetNumHciCommandPackets = n,
                      CommandStatusView.GetCommandOpCode = opcode_le lo hi\<rparr>
            | _ \<Rightarrow> None))"

fun wire_CommandCompleteView :: "EventPacketView \<Rightarrow> CommandCompleteView option" where
  "wire_CommandCompleteView event =
     (if GetEventCode event \<noteq> COMMAND_COMPLETE then None
      else (case GetPayload event of
              n # lo # hi # ret \<Rightarrow>
                Some \<lparr>CommandCompleteView.GetNumHciCommandPackets = n,
                      CommandCompleteView.GetCommandOpCode = opcode_le lo hi,
                      GetReturnParameters = ret\<rparr>
            | _ \<Rightarrow> None))"

fun wire_LeMetaEventView :: "EventPacketView \<Rightarrow> LeMetaEventView option" where
  "wire_LeMetaEventView event =
     (if GetEventCode event \<noteq> LE_META_EVENT then None
      else (case GetPayload event of
              sub # rest \<Rightarrow> Some \<lparr>GetSubeventCode = sub, GetLePayload = rest\<rparr>
            | _ \<Rightarrow> None))"

fun wire_ResetCompleteView :: "CommandCompleteView \<Rightarrow> ErrorCode option" where
  "wire_ResetCompleteView complete =
     (if CommandCompleteView.GetCommandOpCode complete \<noteq> 0x0C03 then None
      else (case GetReturnParameters complete of
              [status] \<Rightarrow> Some (if status = 0 then SUCCESS else ErrorCode_other status)
            | _ \<Rightarrow> None))"

definition wire_codec :: codec where
  "wire_codec = \<lparr>CommandPacketView_Create = wire_CommandPacketView,
     CommandStatusView_Create = wire_CommandStatusView,
     CommandCompleteView_Create = wire_CommandCompleteView,
     LeMetaEventView_Create = wire_LeMetaEventView,
     ResetCompleteView_Create = wire_ResetCompleteView\<rparr>"

text \<open>The packets of the examples: two commands and the events that answer them.\<close>

definition reset_command :: CommandPacketBuilder where
  "reset_command = \<lparr>Serialize = [0x03, 0x0C, 0x00]\<rparr>"

definition disconnect_command :: CommandPacketBuilder where
  "disconnect_command = \<lparr>Serialize = [0x06, 0x04, 0x03, 0x40, 0x00, 0x13]\<rparr>"

definition nop_command :: CommandPacketBuilder where
  "nop_command = \<lparr>Serialize = [0x00, 0x00, 0x00]\<rparr>"

definition reset_complete_event :: EventPacketView where
  "reset_complete_event = \<lparr>GetEventCode = COMMAND_COMPLETE, GetPayload = [0x01, 0x03, 0x0C, 0x00]\<rparr>"

definition disconnect_status_event :: EventPacketView where
  "disconnect_status_event = \<lparr>GetEventCode = COMMAND_STATUS, GetPayload = [0x00, 0x01, 0x06, 0x04]\<rparr>"

definition credit_status_event :: EventPacketView where
  "credit_status_event = \<lparr>GetEventCode = COMMAND_STATUS, GetPayload = [0x00, 0x01, 0x00, 0x00]\<rparr>"

definition le_connection_complete_event :: EventPacketView where
  "le_connection_complete_event = \<lparr>GetEventCode = LE_META_EVENT, GetPayload = [0x01, 0x00]\<rparr>"

subsection \<open>States of the examples\<close>

text \<open>The reset command of \<^verbatim>\<open>Start\<close>, appended to the queue and not yet sent.\<close>

definition queued_reset :: impl where
  "queued_reset = impl_init\<lparr>command_queue :=
     [CommandQueueEntry_on_complete reset_command BindOnce_fail_if_reset_complete_not_success]\<rparr>"

text \<open>The reset command sent and waited for.\<close>

definition reset_in_flight :: impl where
  "reset_in_flight = queued_reset\<lparr>waiting_command := 0x0C03, command_credits := 0,
     hci_timeout_alarm := Some (0x0C03, 2000), effects := [sendHciCommand [0x03, 0x0C, 0x00]]\<rparr>"

text \<open>A disconnect command with a client's status callback, sent and waited for.\<close>

definition disconnect_in_flight :: impl where
  "disconnect_in_flight = impl_init\<lparr>command_queue :=
       [CommandQueueEntry_on_status disconnect_command (Client_on_status 7)],
     waiting_command := 0x0406, command_credits := 0,
     hci_timeout_alarm := Some (0x0406, 2000),
     effects := [sendHciCommand [0x06, 0x04, 0x03, 0x40, 0x00, 0x13]]\<rparr>"

text \<open>The state once the tasks of \<^verbatim>\<open>Start\<close> have run: the handlers are registered and the reset is sent.\<close>

definition started :: impl where
  "started = reset_in_flight\<lparr>event_handlers :=
     [COMMAND_COMPLETE \<mapsto> BindOn_on_command_complete,
      COMMAND_STATUS \<mapsto> BindOn_on_command_status,
      LE_META_EVENT \<mapsto> BindOn_on_le_meta_event,
      PAGE_SCAN_REPETITION_MODE_CHANGE \<mapsto> BindOn_drop,
      MAX_SLOTS_CHANGE \<mapsto> BindOn_drop,
      VENDOR_SPECIFIC \<mapsto> BindOn_drop]\<rparr>"

text \<open>The same once the handler of \<open>LE_META_EVENT\<close> is unregistered.\<close>

definition started_without_le_meta :: impl where
  "started_without_le_meta = reset_in_flight\<lparr>event_handlers :=
     [COMMAND_COMPLETE \<mapsto> BindOn_on_command_complete,
      COMMAND_STATUS \<mapsto> BindOn_on_command_status,
      PAGE_SCAN_REPETITION_MODE_CHANGE \<mapsto> BindOn_drop,
      MAX_SLOTS_CHANGE \<mapsto> BindOn_drop,
      VENDOR_SPECIFIC \<mapsto> BindOn_drop]\<rparr>"

text \<open>The started state with a client's handler for the LE subevent 1.\<close>

definition started_le :: impl where
  "started_le = started\<lparr>subevent_handlers := [0x01 \<mapsto> Client_le_event_handler 3]\<rparr>"

subsection \<open>Invariants of the machine\<close>

text \<open>While a command is waited for, the alarm is scheduled with its opcode.\<close>

definition alarm_inv :: "impl \<Rightarrow> bool" where
  "alarm_inv s \<longleftrightarrow>
     (waiting_command s \<noteq> NONE \<longrightarrow> hci_timeout_alarm s = Some (waiting_command s, kHciTimeoutMs))"

text \<open>While a command is waited for, no credit is left.\<close>

definition credits_inv :: "impl \<Rightarrow> bool" where
  "credits_inv s \<longleftrightarrow> (waiting_command s \<noteq> NONE \<longrightarrow> command_credits s = 0)"

text \<open>
  The number of credits that a task grants without answering a command: the task is a
  command status or command complete event whose opcode is \<open>NONE\<close>.
\<close>

fun credit_only :: "codec \<Rightarrow> task \<Rightarrow> 8 word option" where
  "credit_only cd (On_command_status event) =
     (case CommandStatusView_Create cd event of
        None \<Rightarrow> None
      | Some v \<Rightarrow> if CommandStatusView.GetCommandOpCode v = NONE
                 then Some (CommandStatusView.GetNumHciCommandPackets v) else None)"
| "credit_only cd (On_command_complete event) =
     (case CommandCompleteView_Create cd event of
        None \<Rightarrow> None
      | Some v \<Rightarrow> if CommandCompleteView.GetCommandOpCode v = NONE
                 then Some (CommandCompleteView.GetNumHciCommandPackets v) else None)"
| "credit_only cd t = None"

text \<open>
  With \<open>E\<close> the entries enqueued so far: the callbacks invoked are those of the first
  entries of \<open>E\<close>, the commands sent are the first entries of \<open>E\<close>, the queue is the rest of
  \<open>E\<close> after the entries whose callback was invoked, and one more command is sent than
  callbacks are invoked exactly while a command is waited for.
\<close>

definition fifo_inv :: "CommandQueueEntry list \<Rightarrow> impl \<Rightarrow> bool" where
  "fifo_inv E s \<longleftrightarrow>
     prefix (invoked_sinks (effects s)) (map sink_of E)
     \<and> prefix (hal_commands (effects s)) (map (\<lambda>e. Serialize (command e)) E)
     \<and> command_queue s = drop (length (invoked_sinks (effects s))) E
     \<and> length (hal_commands (effects s))
         = (if waiting_command s \<noteq> NONE then length (invoked_sinks (effects s)) + 1
            else length (invoked_sinks (effects s)))"

subsection \<open>Runs of the examples\<close>

text \<open>A reset and a disconnect are enqueued, and the reset is answered.\<close>

definition reset_then_disconnect :: "task list" where
  "reset_then_disconnect =
     [Handle_enqueue_command_with_complete reset_command BindOnce_fail_if_reset_complete_not_success,
      Handle_enqueue_command_with_status disconnect_command (Client_on_status 7),
      On_command_complete reset_complete_event]"

definition disconnect_after_reset :: impl where
  "disconnect_after_reset = disconnect_in_flight\<lparr>effects :=
     [sendHciCommand [0x03, 0x0C, 0x00],
      Invoke_on_complete BindOnce_fail_if_reset_complete_not_success
        \<lparr>CommandCompleteView.GetNumHciCommandPackets = 1,
         CommandCompleteView.GetCommandOpCode = 0x0C03, GetReturnParameters = [0]\<rparr>,
      sendHciCommand [0x06, 0x04, 0x03, 0x40, 0x00, 0x13]]\<rparr>"

text \<open>
  A command whose opcode is \<open>NONE\<close> and a reset are enqueued, and a command status event
  with opcode \<open>NONE\<close> grants a credit.
\<close>

definition nop_then_reset :: "task list" where
  "nop_then_reset =
     [Handle_enqueue_command_with_complete nop_command (Client_on_complete 3),
      Handle_enqueue_command_with_complete reset_command (Client_on_complete 2),
      On_command_status credit_status_event]"


section \<open>Properties\<close>

subsection \<open>Sending the next command\<close>

lemma effects_emit: "effects (emit x s) = effects s @ [x]"
  by (simp add: emit_def)

lemma send_next_command_idle:
  "\<not> (0 < command_credits s \<and> waiting_command s = NONE \<and> command_queue s \<noteq> []) \<Longrightarrow>
   send_next_command cd s = Inr s"
  by (auto simp: send_next_command_def word_neq_0_conv)

lemma send_next_command_sends:
  assumes "0 < command_credits s" and "waiting_command s = NONE" and "command_queue s \<noteq> []"
  shows "send_next_command cd s =
     (case CommandPacketView_Create cd (Serialize (command (hd (command_queue s)))) of
        None \<Rightarrow> Inl (Abort ASSERT_IsValid, effects s @ [sendHciCommand (Serialize (command (hd (command_queue s))))])
      | Some op_code \<Rightarrow>
          Inr (s\<lparr>waiting_command := op_code, command_credits := 0,
                 hci_timeout_alarm := Some (op_code, kHciTimeoutMs),
                 effects := effects s @ [sendHciCommand (Serialize (command (hd (command_queue s))))]\<rparr>))"
  using assms
  by (auto simp: send_next_command_def emit_def abort_def Let_def split: option.splits)

text \<open>
  C2. \<^verbatim>\<open>send_next_command\<close> hands a command to the HAL exactly when there is a credit, no
  command is waited for and the queue is not empty; otherwise it changes nothing. When it
  sends and the bytes parse to an opcode, that opcode becomes \<open>waiting_command\<close>, the
  credits become 0, the alarm is scheduled with \<open>kHciTimeoutMs\<close>, and the queue is as it was:
  the head stays at the front.
\<close>

theorem send_next_command_sends_iff:
  "((\<exists>b. effects_of (send_next_command cd s) = effects s @ [sendHciCommand b])
      \<longleftrightarrow> (0 < command_credits s \<and> waiting_command s = NONE \<and> command_queue s \<noteq> []))
   \<and> (\<not> (0 < command_credits s \<and> waiting_command s = NONE \<and> command_queue s \<noteq> []) \<longrightarrow>
         send_next_command cd s = Inr s)
   \<and> (0 < command_credits s \<and> waiting_command s = NONE \<and> command_queue s \<noteq> [] \<longrightarrow>
        (\<forall>op_code. CommandPacketView_Create cd (Serialize (command (hd (command_queue s)))) = Some op_code \<longrightarrow>
           send_next_command cd s =
             Inr (s\<lparr>waiting_command := op_code, command_credits := 0,
                    hci_timeout_alarm := Some (op_code, kHciTimeoutMs),
                    effects := effects s @ [sendHciCommand (Serialize (command (hd (command_queue s))))]\<rparr>)))"
proof (cases "0 < command_credits s \<and> waiting_command s = NONE \<and> command_queue s \<noteq> []")
  case True
  then have eq: "send_next_command cd s =
     (case CommandPacketView_Create cd (Serialize (command (hd (command_queue s)))) of
        None \<Rightarrow> Inl (Abort ASSERT_IsValid, effects s @ [sendHciCommand (Serialize (command (hd (command_queue s))))])
      | Some op_code \<Rightarrow>
          Inr (s\<lparr>waiting_command := op_code, command_credits := 0,
                 hci_timeout_alarm := Some (op_code, kHciTimeoutMs),
                 effects := effects s @ [sendHciCommand (Serialize (command (hd (command_queue s))))]\<rparr>))"
    by (simp add: send_next_command_sends)
  have "effects_of (send_next_command cd s)
          = effects s @ [sendHciCommand (Serialize (command (hd (command_queue s))))]"
    unfolding eq by (simp add: effects_of_def split: option.splits)
  with True eq show ?thesis by auto
next
  case False
  then have idle: "send_next_command cd s = Inr s"
    by (rule send_next_command_idle)
  have "\<not> (\<exists>b. effects_of (send_next_command cd s) = effects s @ [sendHciCommand b])"
    unfolding idle by (simp add: effects_of_def)
  with False idle show ?thesis by blast
qed

theorem send_next_command_sends_iff_witness:
  "send_next_command wire_codec queued_reset =
     Inr (queued_reset\<lparr>waiting_command := 0x0C03, command_credits := 0,
            hci_timeout_alarm := Some (0x0C03, 2000),
            effects := [sendHciCommand [0x03, 0x0C, 0x00]]\<rparr>)
   \<and> send_next_command wire_codec impl_init = Inr impl_init"
proof -
  have a: "0 < command_credits queued_reset \<and> waiting_command queued_reset = NONE \<and> command_queue queued_reset \<noteq> []"
    by (simp add: queued_reset_def impl_init_def)
  have b: "CommandPacketView_Create wire_codec (Serialize (command (hd (command_queue queued_reset)))) = Some 0x0C03"
    by (simp add: queued_reset_def impl_init_def wire_codec_def reset_command_def opcode_le_def)
  have c: "\<not> (0 < command_credits impl_init \<and> waiting_command impl_init = NONE \<and> command_queue impl_init \<noteq> [])"
    by (simp add: impl_init_def)
  from send_next_command_sends_iff [of wire_codec queued_reset] a b
  have "send_next_command wire_codec queued_reset =
     Inr (queued_reset\<lparr>waiting_command := 0x0C03, command_credits := 0,
            hci_timeout_alarm := Some (0x0C03, kHciTimeoutMs),
            effects := effects queued_reset @ [sendHciCommand (Serialize (command (hd (command_queue queued_reset))))]\<rparr>)"
    by blast
  moreover from send_next_command_sends_iff [of wire_codec impl_init] c
  have "send_next_command wire_codec impl_init = Inr impl_init" by blast
  ultimately show ?thesis
    by (simp add: queued_reset_def impl_init_def reset_command_def kHciTimeoutMs_def)
qed



subsection \<open>Responses to commands\<close>

lemma invoked_sinks_append: "invoked_sinks (xs @ ys) = invoked_sinks xs @ invoked_sinks ys"
  by (induction xs rule: invoked_sinks.induct) simp_all

lemma hal_commands_append: "hal_commands (xs @ ys) = hal_commands xs @ hal_commands ys"
  by (induction xs rule: hal_commands.induct) simp_all

lemma invoked_sinks_send_next_command:
  "invoked_sinks (effects_of (send_next_command cd s)) = invoked_sinks (effects s)"
  by (simp add: send_next_command_def effects_of_def emit_def abort_def Let_def
      invoked_sinks_append split: option.splits)

lemma on_command_status_match:
  assumes "CommandStatusView_Create cd event = Some status_view"
    and "CommandStatusView.GetCommandOpCode status_view = waiting_command s"
    and "waiting_command s \<noteq> NONE"
    and "command_queue s = CommandQueueEntry_on_status c on_status # rest"
  shows "on_command_status cd event s =
     send_next_command cd
       (s\<lparr>command_credits := CommandStatusView.GetNumHciCommandPackets status_view,
          effects := effects s @ [Invoke_on_status on_status status_view],
          command_queue := rest, waiting_command := NONE, hci_timeout_alarm := None\<rparr>)"
  using assms by (simp add: on_command_status_def emit_def Let_def)

lemma on_command_complete_match:
  assumes "CommandCompleteView_Create cd event = Some complete_view"
    and "CommandCompleteView.GetCommandOpCode complete_view = waiting_command s"
    and "waiting_command s \<noteq> NONE"
    and "command_queue s = CommandQueueEntry_on_complete c on_complete # rest"
  shows "on_command_complete cd event s =
     send_next_command cd
       (s\<lparr>command_credits := CommandCompleteView.GetNumHciCommandPackets complete_view,
          effects := effects s @ [Invoke_on_complete on_complete complete_view],
          command_queue := rest, waiting_command := NONE, hci_timeout_alarm := None\<rparr>)"
  using assms by (simp add: on_command_complete_def emit_def Let_def)

text \<open>
  C3. A command is waited for, and a command status event arrives whose opcode is the one
  waited for, the head of the queue having been enqueued with a status callback. Then
  \<^verbatim>\<open>on_command_status\<close> takes the credits from the event, invokes the head's status
  callback with the parsed view, once, pops the head, sets \<open>waiting_command\<close> to \<open>NONE\<close>,
  cancels the alarm, and goes on with \<^verbatim>\<open>send_next_command\<close>. The same holds of
  \<^verbatim>\<open>on_command_complete\<close> and a head enqueued with a completion callback.
\<close>

theorem matching_response_completes_head:
  "(CommandStatusView_Create cd event = Some status_view
      \<and> CommandStatusView.GetCommandOpCode status_view = waiting_command s
      \<and> waiting_command s \<noteq> NONE
      \<and> command_queue s = CommandQueueEntry_on_status c on_status # rest
    \<longrightarrow> on_command_status cd event s =
          send_next_command cd
            (s\<lparr>command_credits := CommandStatusView.GetNumHciCommandPackets status_view,
               effects := effects s @ [Invoke_on_status on_status status_view],
               command_queue := rest, waiting_command := NONE, hci_timeout_alarm := None\<rparr>)
        \<and> invoked_sinks (effects_of (on_command_status cd event s))
            = invoked_sinks (effects s) @ [Status_sink on_status])
   \<and> (CommandCompleteView_Create cd event = Some complete_view
      \<and> CommandCompleteView.GetCommandOpCode complete_view = waiting_command s
      \<and> waiting_command s \<noteq> NONE
      \<and> command_queue s = CommandQueueEntry_on_complete c' on_complete # rest'
    \<longrightarrow> on_command_complete cd event s =
          send_next_command cd
            (s\<lparr>command_credits := CommandCompleteView.GetNumHciCommandPackets complete_view,
               effects := effects s @ [Invoke_on_complete on_complete complete_view],
               command_queue := rest', waiting_command := NONE, hci_timeout_alarm := None\<rparr>)
        \<and> invoked_sinks (effects_of (on_command_complete cd event s))
            = invoked_sinks (effects s) @ [Complete_sink on_complete])"
proof (intro conjI impI)
  assume a: "CommandStatusView_Create cd event = Some status_view
      \<and> CommandStatusView.GetCommandOpCode status_view = waiting_command s
      \<and> waiting_command s \<noteq> NONE
      \<and> command_queue s = CommandQueueEntry_on_status c on_status # rest"
  then show eq: "on_command_status cd event s =
          send_next_command cd
            (s\<lparr>command_credits := CommandStatusView.GetNumHciCommandPackets status_view,
               effects := effects s @ [Invoke_on_status on_status status_view],
               command_queue := rest, waiting_command := NONE, hci_timeout_alarm := None\<rparr>)"
    by (simp add: on_command_status_match)
  show "invoked_sinks (effects_of (on_command_status cd event s))
            = invoked_sinks (effects s) @ [Status_sink on_status]"
    unfolding eq by (simp add: invoked_sinks_send_next_command invoked_sinks_append)
next
  assume a: "CommandCompleteView_Create cd event = Some complete_view
      \<and> CommandCompleteView.GetCommandOpCode complete_view = waiting_command s
      \<and> waiting_command s \<noteq> NONE
      \<and> command_queue s = CommandQueueEntry_on_complete c' on_complete # rest'"
  then show eq: "on_command_complete cd event s =
          send_next_command cd
            (s\<lparr>command_credits := CommandCompleteView.GetNumHciCommandPackets complete_view,
               effects := effects s @ [Invoke_on_complete on_complete complete_view],
               command_queue := rest', waiting_command := NONE, hci_timeout_alarm := None\<rparr>)"
    by (simp add: on_command_complete_match)
  show "invoked_sinks (effects_of (on_command_complete cd event s))
            = invoked_sinks (effects s) @ [Complete_sink on_complete]"
    unfolding eq by (simp add: invoked_sinks_send_next_command invoked_sinks_append)
qed

lemma wire_disconnect_status:
  "CommandStatusView_Create wire_codec disconnect_status_event =
     Some \<lparr>CommandStatusView.GetNumHciCommandPackets = 1, CommandStatusView.GetCommandOpCode = 0x0406\<rparr>"
  by (simp add: wire_codec_def disconnect_status_event_def opcode_le_def)

lemma wire_reset_complete:
  "CommandCompleteView_Create wire_codec reset_complete_event =
     Some \<lparr>CommandCompleteView.GetNumHciCommandPackets = 1,
           CommandCompleteView.GetCommandOpCode = 0x0C03, GetReturnParameters = [0]\<rparr>"
  by (simp add: wire_codec_def reset_complete_event_def opcode_le_def)

lemma wire_credit_status:
  "CommandStatusView_Create wire_codec credit_status_event =
     Some \<lparr>CommandStatusView.GetNumHciCommandPackets = 1, CommandStatusView.GetCommandOpCode = NONE\<rparr>"
  by (simp add: wire_codec_def credit_status_event_def opcode_le_def NONE_def)

theorem matching_response_completes_head_witness:
  "on_command_status wire_codec disconnect_status_event disconnect_in_flight =
     Inr (disconnect_in_flight\<lparr>command_credits := 1,
            effects := [sendHciCommand [0x06, 0x04, 0x03, 0x40, 0x00, 0x13],
               Invoke_on_status (Client_on_status 7)
                 \<lparr>CommandStatusView.GetNumHciCommandPackets = 1,
                  CommandStatusView.GetCommandOpCode = 0x0406\<rparr>],
            command_queue := [], waiting_command := NONE, hci_timeout_alarm := None\<rparr>)
   \<and> on_command_complete wire_codec reset_complete_event reset_in_flight =
     Inr (reset_in_flight\<lparr>command_credits := 1,
            effects := [sendHciCommand [0x03, 0x0C, 0x00],
               Invoke_on_complete BindOnce_fail_if_reset_complete_not_success
                 \<lparr>CommandCompleteView.GetNumHciCommandPackets = 1,
                  CommandCompleteView.GetCommandOpCode = 0x0C03, GetReturnParameters = [0]\<rparr>],
            command_queue := [], waiting_command := NONE, hci_timeout_alarm := None\<rparr>)"
proof -
  have s1: "CommandStatusView.GetCommandOpCode
              \<lparr>CommandStatusView.GetNumHciCommandPackets = 1, CommandStatusView.GetCommandOpCode = 0x0406\<rparr>
            = waiting_command disconnect_in_flight
          \<and> waiting_command disconnect_in_flight \<noteq> NONE
          \<and> command_queue disconnect_in_flight
            = CommandQueueEntry_on_status disconnect_command (Client_on_status 7) # []"
    by (simp add: disconnect_in_flight_def impl_init_def NONE_def)
  have s2: "CommandCompleteView.GetCommandOpCode
              \<lparr>CommandCompleteView.GetNumHciCommandPackets = 1,
               CommandCompleteView.GetCommandOpCode = 0x0C03, GetReturnParameters = [0]\<rparr>
            = waiting_command reset_in_flight
          \<and> waiting_command reset_in_flight \<noteq> NONE
          \<and> command_queue reset_in_flight
            = CommandQueueEntry_on_complete reset_command BindOnce_fail_if_reset_complete_not_success # []"
    by (simp add: reset_in_flight_def queued_reset_def impl_init_def NONE_def)
  from matching_response_completes_head
    [where cd = wire_codec and event = disconnect_status_event and s = disconnect_in_flight
       and status_view = "\<lparr>CommandStatusView.GetNumHciCommandPackets = 1, CommandStatusView.GetCommandOpCode = 0x0406\<rparr>"
       and c = disconnect_command and on_status = "Client_on_status 7" and rest = "[]"]
    wire_disconnect_status s1
  have a: "on_command_status wire_codec disconnect_status_event disconnect_in_flight =
          send_next_command wire_codec
            (disconnect_in_flight\<lparr>command_credits := 1,
               effects := effects disconnect_in_flight @ [Invoke_on_status (Client_on_status 7)
                  \<lparr>CommandStatusView.GetNumHciCommandPackets = 1, CommandStatusView.GetCommandOpCode = 0x0406\<rparr>],
               command_queue := [], waiting_command := NONE, hci_timeout_alarm := None\<rparr>)"
    by simp
  from matching_response_completes_head
    [where cd = wire_codec and event = reset_complete_event and s = reset_in_flight
       and complete_view = "\<lparr>CommandCompleteView.GetNumHciCommandPackets = 1,
               CommandCompleteView.GetCommandOpCode = 0x0C03, GetReturnParameters = [0]\<rparr>"
       and c' = reset_command and on_complete = BindOnce_fail_if_reset_complete_not_success and rest' = "[]"]
    wire_reset_complete s2
  have b: "on_command_complete wire_codec reset_complete_event reset_in_flight =
          send_next_command wire_codec
            (reset_in_flight\<lparr>command_credits := 1,
               effects := effects reset_in_flight @ [Invoke_on_complete BindOnce_fail_if_reset_complete_not_success
                  \<lparr>CommandCompleteView.GetNumHciCommandPackets = 1,
                   CommandCompleteView.GetCommandOpCode = 0x0C03, GetReturnParameters = [0]\<rparr>],
               command_queue := [], waiting_command := NONE, hci_timeout_alarm := None\<rparr>)"
    by simp
  show ?thesis
    unfolding a b
    by (simp add: send_next_command_def disconnect_in_flight_def reset_in_flight_def
        queued_reset_def impl_init_def)
qed

text \<open>
  C4. A command status event whose opcode is \<open>NONE\<close>, arriving while a command is waited
  for, sets the credits to the number it reports and changes nothing else: the queue, the
  command waited for and the alarm are as before, and so are the effects, so that no
  callback is invoked and nothing is sent to the HAL.
\<close>

theorem credit_only_status_while_waiting:
  assumes "CommandStatusView_Create cd event = Some status_view"
    and "CommandStatusView.GetCommandOpCode status_view = NONE"
    and "waiting_command s \<noteq> NONE"
  shows "on_command_status cd event s =
           Inr (s\<lparr>command_credits := CommandStatusView.GetNumHciCommandPackets status_view\<rparr>)"
  using assms by (simp add: on_command_status_def send_next_command_def Let_def)

theorem credit_only_status_while_waiting_witness:
  "on_command_status wire_codec credit_status_event reset_in_flight =
     Inr (reset_in_flight\<lparr>command_credits := 1\<rparr>)"
proof -
  have "waiting_command reset_in_flight \<noteq> NONE"
    by (simp add: reset_in_flight_def NONE_def)
  from credit_only_status_while_waiting [OF wire_credit_status _ this]
  show ?thesis by simp
qed

text \<open>
  C6. A command status or command complete event whose opcode is not \<open>NONE\<close> aborts the
  process, before any effect, when the queue is empty, or the opcode is not the one waited
  for, or the head of the queue expects the other kind of response.
\<close>

theorem unexpected_response_is_fatal:
  "(CommandStatusView_Create cd event = Some status_view
      \<and> CommandStatusView.GetCommandOpCode status_view \<noteq> NONE
      \<and> (command_queue s = []
          \<or> CommandStatusView.GetCommandOpCode status_view \<noteq> waiting_command s
          \<or> \<not> waiting_for_status (hd (command_queue s)))
    \<longrightarrow> (\<exists>e. on_command_status cd event s = Inl (Abort e, effects s)))
   \<and> (CommandCompleteView_Create cd event = Some complete_view
      \<and> CommandCompleteView.GetCommandOpCode complete_view \<noteq> NONE
      \<and> (command_queue s = []
          \<or> CommandCompleteView.GetCommandOpCode complete_view \<noteq> waiting_command s
          \<or> waiting_for_status (hd (command_queue s)))
    \<longrightarrow> (\<exists>e. on_command_complete cd event s = Inl (Abort e, effects s)))"
  by (auto simp: on_command_status_def on_command_complete_def abort_def Let_def
      split: CommandQueueEntry.splits)

theorem unexpected_response_is_fatal_witness:
  "on_command_status wire_codec disconnect_status_event reset_in_flight
     = Inl (Abort (Waiting_for_got 0x0C03 0x0406), [sendHciCommand [0x03, 0x0C, 0x00]])
   \<and> on_command_complete wire_codec reset_complete_event disconnect_in_flight
     = Inl (Abort (Waiting_for_got 0x0406 0x0C03), [sendHciCommand [0x06, 0x04, 0x03, 0x40, 0x00, 0x13]])"
proof -
  have a: "CommandStatusView.GetCommandOpCode
              \<lparr>CommandStatusView.GetNumHciCommandPackets = 1, CommandStatusView.GetCommandOpCode = 0x0406\<rparr> \<noteq> NONE
        \<and> (command_queue reset_in_flight = []
          \<or> CommandStatusView.GetCommandOpCode
              \<lparr>CommandStatusView.GetNumHciCommandPackets = 1, CommandStatusView.GetCommandOpCode = 0x0406\<rparr>
              \<noteq> waiting_command reset_in_flight
          \<or> \<not> waiting_for_status (hd (command_queue reset_in_flight)))"
    by (simp add: reset_in_flight_def NONE_def)
  have b: "CommandCompleteView.GetCommandOpCode
              \<lparr>CommandCompleteView.GetNumHciCommandPackets = 1,
               CommandCompleteView.GetCommandOpCode = 0x0C03, GetReturnParameters = [0]\<rparr> \<noteq> NONE
        \<and> (command_queue disconnect_in_flight = []
          \<or> CommandCompleteView.GetCommandOpCode
              \<lparr>CommandCompleteView.GetNumHciCommandPackets = 1,
               CommandCompleteView.GetCommandOpCode = 0x0C03, GetReturnParameters = [0]\<rparr>
              \<noteq> waiting_command disconnect_in_flight
          \<or> waiting_for_status (hd (command_queue disconnect_in_flight)))"
    by (simp add: disconnect_in_flight_def impl_init_def NONE_def)
  from unexpected_response_is_fatal
    [where cd = wire_codec and event = disconnect_status_event and s = reset_in_flight
       and status_view = "\<lparr>CommandStatusView.GetNumHciCommandPackets = 1, CommandStatusView.GetCommandOpCode = 0x0406\<rparr>"]
    wire_disconnect_status a
  have "\<exists>e. on_command_status wire_codec disconnect_status_event reset_in_flight = Inl (Abort e, effects reset_in_flight)"
    by blast
  moreover from unexpected_response_is_fatal
    [where cd = wire_codec and event = reset_complete_event and s = disconnect_in_flight
       and complete_view = "\<lparr>CommandCompleteView.GetNumHciCommandPackets = 1,
               CommandCompleteView.GetCommandOpCode = 0x0C03, GetReturnParameters = [0]\<rparr>"]
    wire_reset_complete b
  have "\<exists>e. on_command_complete wire_codec reset_complete_event disconnect_in_flight = Inl (Abort e, effects disconnect_in_flight)"
    by blast
  ultimately show ?thesis
    by (simp add: on_command_status_def on_command_complete_def wire_disconnect_status
        wire_reset_complete abort_def reset_in_flight_def disconnect_in_flight_def
        queued_reset_def impl_init_def NONE_def Let_def)
qed


subsection \<open>The handler tables\<close>

lemma Start_runs: "run_tasks wire_codec (Start reset_command) impl_init = Inr started"
  by (simp add: Start_def RegisterEventHandler_def EnqueueCommand_on_complete_def
      handle_register_event_handler_def handle_enqueue_command_with_complete_def
      send_next_command_def emit_def impl_init_def started_def reset_in_flight_def
      queued_reset_def wire_codec_def reset_command_def opcode_le_def NONE_def
      kHciTimeoutMs_def Let_def)

lemma handler_registration_exclusive:
  "(event_handlers s event_code \<noteq> None \<longrightarrow>
      handle_register_event_handler event_code h s
        = Inl (Abort (Second_handler_for_event_code event_code), effects s)
      \<and> handle_unregister_event_handler event_code s
        = Inr (s\<lparr>event_handlers := (event_handlers s)(event_code := None)\<rparr>))
   \<and> (subevent_handlers s subevent_code \<noteq> None \<longrightarrow>
      handle_register_le_event_handler subevent_code lh s
        = Inl (Abort (Second_handler_for_subevent_code subevent_code), effects s)
      \<and> handle_unregister_le_event_handler subevent_code s
        = Inr (s\<lparr>subevent_handlers := (subevent_handlers s)(subevent_code := None)\<rparr>))
   \<and> (event_handlers s event_code = None \<longrightarrow>
      handle_register_event_handler event_code h s
        = Inr (s\<lparr>event_handlers := (event_handlers s)(event_code \<mapsto> h)\<rparr>))
   \<and> (subevent_handlers s subevent_code = None \<longrightarrow>
      handle_register_le_event_handler subevent_code lh s
        = Inr (s\<lparr>subevent_handlers := (subevent_handlers s)(subevent_code \<mapsto> lh)\<rparr>))"
  by (auto simp: handle_register_event_handler_def handle_register_le_event_handler_def
      handle_unregister_event_handler_def handle_unregister_le_event_handler_def abort_def)

text \<open>
  C9. Registration is exclusive, as the lemma above shows: a second handler for a code
  aborts the process. Unregistration of a code without a handler is not checked: in the
  started state, where neither the event code 5 nor the LE subevent code 2 has a handler,
  \<^verbatim>\<open>handle_unregister_event_handler\<close> and \<^verbatim>\<open>handle_unregister_le_event_handler\<close> erase the end
  iterator of their map. That is no abort: the code has no defined behaviour there.
\<close>

theorem unregister_absent_undefined_behaviour:
  "handle_unregister_event_handler (EventCode_other 0x05) started_le
     = Inl (Undefined_behaviour, [sendHciCommand [0x03, 0x0C, 0x00]])
   \<and> handle_unregister_le_event_handler 0x02 started_le
     = Inl (Undefined_behaviour, [sendHciCommand [0x03, 0x0C, 0x00]])
   \<and> handle_register_event_handler COMMAND_COMPLETE (Client_event_handler 1) started_le
     = Inl (Abort (Second_handler_for_event_code COMMAND_COMPLETE), [sendHciCommand [0x03, 0x0C, 0x00]])
   \<and> handle_register_le_event_handler 0x01 (Client_le_event_handler 4) started_le
     = Inl (Abort (Second_handler_for_subevent_code 0x01), [sendHciCommand [0x03, 0x0C, 0x00]])"
  by (simp add: handle_unregister_event_handler_def handle_unregister_le_event_handler_def
      handle_register_event_handler_def handle_register_le_event_handler_def
      undefined_behaviour_def abort_def started_le_def started_def reset_in_flight_def
      queued_reset_def impl_init_def)

subsection \<open>The facade getters\<close>

lemma run_register_each:
  "run_tasks cd (register_each events h) s = Inr s' \<Longrightarrow>
   s' = s\<lparr>event_handlers := (\<lambda>c. if c \<in> set events then Some h else event_handlers s c)\<rparr>"
proof (induction events arbitrary: s)
  case Nil
  then show ?case by simp
next
  case (Cons e events)
  from Cons.prems have free: "event_handlers s e = None"
    by (auto simp: RegisterEventHandler_def handle_register_event_handler_def abort_def
        split: if_splits)
  with Cons.prems
  have "run_tasks cd (register_each events h) (s\<lparr>event_handlers := (event_handlers s)(e \<mapsto> h)\<rparr>) = Inr s'"
    by (simp add: RegisterEventHandler_def handle_register_event_handler_def)
  note ih = Cons.IH [OF this]
  have g: "(\<lambda>c. if c \<in> set events then Some h
        else event_handlers (s\<lparr>event_handlers := (event_handlers s)(e \<mapsto> h)\<rparr>) c)
      = (\<lambda>c. if c \<in> set (e # events) then Some h else event_handlers s c)"
    by (rule ext) simp
  from ih show ?case unfolding g by simp
qed

lemma run_register_each_le:
  "run_tasks cd (register_each_le events h) s = Inr s' \<Longrightarrow>
   s' = s\<lparr>subevent_handlers := (\<lambda>c. if c \<in> set events then Some h else subevent_handlers s c)\<rparr>"
proof (induction events arbitrary: s)
  case Nil
  then show ?case by simp
next
  case (Cons e events)
  from Cons.prems have free: "subevent_handlers s e = None"
    by (auto simp: RegisterLeEventHandler_def handle_register_le_event_handler_def abort_def
        split: if_splits)
  with Cons.prems
  have "run_tasks cd (register_each_le events h)
          (s\<lparr>subevent_handlers := (subevent_handlers s)(e \<mapsto> h)\<rparr>) = Inr s'"
    by (simp add: RegisterLeEventHandler_def handle_register_le_event_handler_def)
  note ih = Cons.IH [OF this]
  have g: "(\<lambda>c. if c \<in> set events then Some h
        else subevent_handlers (s\<lparr>subevent_handlers := (subevent_handlers s)(e \<mapsto> h)\<rparr>) c)
      = (\<lambda>c. if c \<in> set (e # events) then Some h else subevent_handlers s c)"
    by (rule ext) simp
  from ih show ?case unfolding g by simp
qed

text \<open>
  C10. \<^verbatim>\<open>GetAclConnectionInterface\<close> and \<^verbatim>\<open>GetLeAclConnectionInterface\<close> do not use their
  argument \<open>on_disconnect\<close>: what they post and what they return is the same for any two
  values of it. They post one registration of \<open>event_handler\<close> for each code of their table,
  in the order of the table, and when these tasks have run the state differs from the one
  before only in the handler table, where each code of the table has \<open>event_handler\<close>.
\<close>

theorem facade_getters_discard_on_disconnect:
  "GetAclConnectionInterface events h d1 = GetAclConnectionInterface events h d2
   \<and> GetLeAclConnectionInterface le_events lh d1 = GetLeAclConnectionInterface le_events lh d2
   \<and> fst (GetAclConnectionInterface events h d1)
       = map (\<lambda>event. Handle_register_event_handler event h) events
   \<and> fst (GetLeAclConnectionInterface le_events lh d1)
       = map (\<lambda>event. Handle_register_le_event_handler event lh) le_events
   \<and> (run_tasks cd (fst (GetAclConnectionInterface events h d1)) s = Inr s' \<longrightarrow>
        s' = s\<lparr>event_handlers := (\<lambda>c. if c \<in> set events then Some h else event_handlers s c)\<rparr>)
   \<and> (run_tasks cd (fst (GetLeAclConnectionInterface le_events lh d1)) s = Inr s'' \<longrightarrow>
        s'' = s\<lparr>subevent_handlers :=
                  (\<lambda>c. if c \<in> set le_events then Some lh else subevent_handlers s c)\<rparr>)"
proof -
  have "register_each events h = map (\<lambda>event. Handle_register_event_handler event h) events"
    by (induction events) (simp_all add: RegisterEventHandler_def)
  moreover have "register_each_le le_events lh
      = map (\<lambda>event. Handle_register_le_event_handler event lh) le_events"
    by (induction le_events) (simp_all add: RegisterLeEventHandler_def)
  ultimately show ?thesis
    using run_register_each [of cd events h s s'] run_register_each_le [of cd le_events lh s s'']
    by (simp add: GetAclConnectionInterface_def GetLeAclConnectionInterface_def)
qed

theorem facade_getters_discard_on_disconnect_witness:
  "run_tasks wire_codec
     (fst (GetAclConnectionInterface [EventCode_other 0x03, EventCode_other 0x05]
        (Client_event_handler 1) (Client_on_disconnect 2))) impl_init
     = Inr (impl_init\<lparr>event_handlers :=
         (\<lambda>c. if c \<in> set [EventCode_other 0x03, EventCode_other 0x05]
               then Some (Client_event_handler 1) else event_handlers impl_init c)\<rparr>)
   \<and> run_tasks wire_codec
     (fst (GetLeAclConnectionInterface [0x01, 0x03]
        (Client_le_event_handler 1) (Client_on_disconnect 2))) impl_init
     = Inr (impl_init\<lparr>subevent_handlers :=
         (\<lambda>c. if c \<in> set [0x01, 0x03]
               then Some (Client_le_event_handler 1) else subevent_handlers impl_init c)\<rparr>)"
proof -
  have a: "run_tasks wire_codec
     (fst (GetAclConnectionInterface [EventCode_other 0x03, EventCode_other 0x05]
        (Client_event_handler 1) (Client_on_disconnect 2))) impl_init
     = Inr (impl_init\<lparr>event_handlers :=
         [EventCode_other 0x03 \<mapsto> Client_event_handler 1,
          EventCode_other 0x05 \<mapsto> Client_event_handler 1]\<rparr>)"
    by (simp add: GetAclConnectionInterface_def RegisterEventHandler_def
        handle_register_event_handler_def impl_init_def)
  have b: "run_tasks wire_codec
     (fst (GetLeAclConnectionInterface [0x01, 0x03]
        (Client_le_event_handler 1) (Client_on_disconnect 2))) impl_init
     = Inr (impl_init\<lparr>subevent_handlers :=
         [0x01 \<mapsto> Client_le_event_handler 1, 0x03 \<mapsto> Client_le_event_handler 1]\<rparr>)"
    by (simp add: GetLeAclConnectionInterface_def RegisterLeEventHandler_def
        handle_register_le_event_handler_def impl_init_def)
  have t: "(run_tasks wire_codec
          (fst (GetAclConnectionInterface [EventCode_other 0x03, EventCode_other 0x05]
             (Client_event_handler 1) (Client_on_disconnect 2))) impl_init
        = Inr (impl_init\<lparr>event_handlers :=
            [EventCode_other 0x03 \<mapsto> Client_event_handler 1,
             EventCode_other 0x05 \<mapsto> Client_event_handler 1]\<rparr>) \<longrightarrow>
        impl_init\<lparr>event_handlers :=
            [EventCode_other 0x03 \<mapsto> Client_event_handler 1,
             EventCode_other 0x05 \<mapsto> Client_event_handler 1]\<rparr>
        = impl_init\<lparr>event_handlers :=
            (\<lambda>c. if c \<in> set [EventCode_other 0x03, EventCode_other 0x05]
                  then Some (Client_event_handler 1) else event_handlers impl_init c)\<rparr>)
     \<and> (run_tasks wire_codec
          (fst (GetLeAclConnectionInterface [0x01, 0x03]
             (Client_le_event_handler 1) (Client_on_disconnect 2))) impl_init
        = Inr (impl_init\<lparr>subevent_handlers :=
            [0x01 \<mapsto> Client_le_event_handler 1, 0x03 \<mapsto> Client_le_event_handler 1]\<rparr>) \<longrightarrow>
        impl_init\<lparr>subevent_handlers :=
            [0x01 \<mapsto> Client_le_event_handler 1, 0x03 \<mapsto> Client_le_event_handler 1]\<rparr>
        = impl_init\<lparr>subevent_handlers :=
            (\<lambda>c. if c \<in> set [0x01, 0x03]
                  then Some (Client_le_event_handler 1) else subevent_handlers impl_init c)\<rparr>)"
    using facade_getters_discard_on_disconnect
      [of "[EventCode_other 0x03, EventCode_other 0x05]" "Client_event_handler 1"
        "Client_on_disconnect 2" "Client_on_disconnect 2" "[0x01, 0x03]" "Client_le_event_handler 1"
        wire_codec impl_init
        "impl_init\<lparr>event_handlers :=
         [EventCode_other 0x03 \<mapsto> Client_event_handler 1,
          EventCode_other 0x05 \<mapsto> Client_event_handler 1]\<rparr>"
        "impl_init\<lparr>subevent_handlers :=
         [0x01 \<mapsto> Client_le_event_handler 1, 0x03 \<mapsto> Client_le_event_handler 1]\<rparr>"]
    by blast
  from t a have a': "impl_init\<lparr>event_handlers :=
            [EventCode_other 0x03 \<mapsto> Client_event_handler 1,
             EventCode_other 0x05 \<mapsto> Client_event_handler 1]\<rparr>
        = impl_init\<lparr>event_handlers :=
            (\<lambda>c. if c \<in> set [EventCode_other 0x03, EventCode_other 0x05]
                  then Some (Client_event_handler 1) else event_handlers impl_init c)\<rparr>"
    by blast
  from t b have b': "impl_init\<lparr>subevent_handlers :=
            [0x01 \<mapsto> Client_le_event_handler 1, 0x03 \<mapsto> Client_le_event_handler 1]\<rparr>
        = impl_init\<lparr>subevent_handlers :=
            (\<lambda>c. if c \<in> set [0x01, 0x03]
                  then Some (Client_le_event_handler 1) else subevent_handlers impl_init c)\<rparr>"
    by blast
  show ?thesis
    using a b unfolding a' b' by (rule conjI)
qed


subsection \<open>The shape of a step\<close>



lemma send_next_command_cases:
  assumes "send_next_command cd s = Inr s'"
  obtains (idle) "s' = s"
      and "\<not> (0 < command_credits s \<and> waiting_command s = NONE \<and> command_queue s \<noteq> [])"
  | (sent) op_code where "0 < command_credits s" and "waiting_command s = NONE"
      and "command_queue s \<noteq> []"
      and "CommandPacketView_Create cd (Serialize (command (hd (command_queue s)))) = Some op_code"
      and "s' = s\<lparr>waiting_command := op_code, command_credits := 0,
                 hci_timeout_alarm := Some (op_code, kHciTimeoutMs),
                 effects := effects s @ [sendHciCommand (Serialize (command (hd (command_queue s))))]\<rparr>"
proof (cases "0 < command_credits s \<and> waiting_command s = NONE \<and> command_queue s \<noteq> []")
  case False
  with assms idle show ?thesis
    by (simp add: send_next_command_idle)
next
  case True
  with assms sent show ?thesis
    by (auto simp: send_next_command_sends split: option.splits)
qed

lemma on_command_status_cases:
  assumes "on_command_status cd event s = Inr s'"
  obtains (credit) v where "CommandStatusView_Create cd event = Some v"
      and "CommandStatusView.GetCommandOpCode v = NONE"
      and "send_next_command cd (s\<lparr>command_credits := CommandStatusView.GetNumHciCommandPackets v\<rparr>) = Inr s'"
  | (match) v c f rest where "CommandStatusView_Create cd event = Some v"
      and "CommandStatusView.GetCommandOpCode v \<noteq> NONE"
      and "waiting_command s = CommandStatusView.GetCommandOpCode v"
      and "command_queue s = CommandQueueEntry_on_status c f # rest"
      and "send_next_command cd
             (s\<lparr>command_credits := CommandStatusView.GetNumHciCommandPackets v,
                effects := effects s @ [Invoke_on_status f v],
                command_queue := rest, waiting_command := NONE, hci_timeout_alarm := None\<rparr>) = Inr s'"
proof -
  from assms obtain v where v: "CommandStatusView_Create cd event = Some v"
    by (auto simp: on_command_status_def abort_def split: option.splits)
  show ?thesis
  proof (cases "CommandStatusView.GetCommandOpCode v = NONE")
    case True
    with assms v credit show ?thesis
      by (simp add: on_command_status_def Let_def)
  next
    case False
    with assms v have q: "command_queue s \<noteq> []"
      and w: "waiting_command s = CommandStatusView.GetCommandOpCode v"
      by (auto simp: on_command_status_def Let_def abort_def split: if_splits)
    from q obtain e rest where e: "command_queue s = e # rest"
      by (cases "command_queue s") auto
    with assms v False w obtain c f where "e = CommandQueueEntry_on_status c f"
      by (cases e) (auto simp: on_command_status_def Let_def abort_def)
    with assms v False w e match show ?thesis
      by (simp add: on_command_status_def Let_def emit_def)
  qed
qed

lemma on_command_complete_cases:
  assumes "on_command_complete cd event s = Inr s'"
  obtains (credit) v where "CommandCompleteView_Create cd event = Some v"
      and "CommandCompleteView.GetCommandOpCode v = NONE"
      and "send_next_command cd (s\<lparr>command_credits := CommandCompleteView.GetNumHciCommandPackets v\<rparr>) = Inr s'"
  | (match) v c f rest where "CommandCompleteView_Create cd event = Some v"
      and "CommandCompleteView.GetCommandOpCode v \<noteq> NONE"
      and "waiting_command s = CommandCompleteView.GetCommandOpCode v"
      and "command_queue s = CommandQueueEntry_on_complete c f # rest"
      and "send_next_command cd
             (s\<lparr>command_credits := CommandCompleteView.GetNumHciCommandPackets v,
                effects := effects s @ [Invoke_on_complete f v],
                command_queue := rest, waiting_command := NONE, hci_timeout_alarm := None\<rparr>) = Inr s'"
proof -
  from assms obtain v where v: "CommandCompleteView_Create cd event = Some v"
    by (auto simp: on_command_complete_def abort_def split: option.splits)
  show ?thesis
  proof (cases "CommandCompleteView.GetCommandOpCode v = NONE")
    case True
    with assms v credit show ?thesis
      by (simp add: on_command_complete_def Let_def)
  next
    case False
    with assms v have q: "command_queue s \<noteq> []"
      and w: "waiting_command s = CommandCompleteView.GetCommandOpCode v"
      by (auto simp: on_command_complete_def Let_def abort_def split: if_splits)
    from q obtain e rest where e: "command_queue s = e # rest"
      by (cases "command_queue s") auto
    with assms v False w obtain c f where "e = CommandQueueEntry_on_complete c f"
      by (cases e) (auto simp: on_command_complete_def Let_def abort_def)
    with assms v False w e match show ?thesis
      by (simp add: on_command_complete_def Let_def emit_def)
  qed
qed

text \<open>The tasks that leave the command engine alone.\<close>

lemma other_task_frame:
  assumes "run_task cd t s = Inr s'"
    and "\<And>cmd f. t \<noteq> Handle_enqueue_command_with_complete cmd f"
    and "\<And>cmd f. t \<noteq> Handle_enqueue_command_with_status cmd f"
    and "\<And>event. t \<noteq> On_command_complete event"
    and "\<And>event. t \<noteq> On_command_status event"
  shows "command_queue s' = command_queue s \<and> waiting_command s' = waiting_command s
       \<and> command_credits s' = command_credits s \<and> hci_timeout_alarm s' = hci_timeout_alarm s
       \<and> hal_commands (effects s') = hal_commands (effects s)
       \<and> invoked_sinks (effects s') = invoked_sinks (effects s)"
  using assms
  by (cases t)
    (auto simp: handle_register_event_handler_def
      handle_unregister_event_handler_def handle_register_le_event_handler_def
      handle_unregister_le_event_handler_def on_hci_event_def on_le_meta_event_def
      drop_event_def fail_if_reset_complete_not_success_def on_hci_timeout_def
      abort_def undefined_behaviour_def emit_def Let_def hal_commands_append invoked_sinks_append
      split: option.splits if_splits)

subsection \<open>The timeout\<close>

lemma alarm_inv_send_next_command:
  assumes "alarm_inv s" and "send_next_command cd s = Inr s'"
  shows "alarm_inv s'"
  using assms(2)
proof (cases rule: send_next_command_cases)
  case idle
  with assms(1) show ?thesis by simp
next
  case (sent op_code)
  then show ?thesis by (simp add: alarm_inv_def)
qed

lemma alarm_inv_task:
  assumes "alarm_inv s" and "run_task cd t s = Inr s'"
  shows "alarm_inv s'"
proof -
  consider (ec) cmd f where "t = Handle_enqueue_command_with_complete cmd f"
    | (es) cmd f where "t = Handle_enqueue_command_with_status cmd f"
    | (cc) event where "t = On_command_complete event"
    | (cs) event where "t = On_command_status event"
    | (other) "\<And>cmd f. t \<noteq> Handle_enqueue_command_with_complete cmd f"
        "\<And>cmd f. t \<noteq> Handle_enqueue_command_with_status cmd f"
        "\<And>event. t \<noteq> On_command_complete event"
        "\<And>event. t \<noteq> On_command_status event"
    by (cases t) auto
  then show ?thesis
  proof cases
    case ec
    have "alarm_inv (s\<lparr>command_queue := command_queue s @ [CommandQueueEntry_on_complete cmd f]\<rparr>)"
      using assms(1) by (simp add: alarm_inv_def)
    with assms(2) ec show ?thesis
      by (auto simp: handle_enqueue_command_with_complete_def dest: alarm_inv_send_next_command)
  next
    case es
    have "alarm_inv (s\<lparr>command_queue := command_queue s @ [CommandQueueEntry_on_status cmd f]\<rparr>)"
      using assms(1) by (simp add: alarm_inv_def)
    with assms(2) es show ?thesis
      by (auto simp: handle_enqueue_command_with_status_def dest: alarm_inv_send_next_command)
  next
    case cc
    with assms(2) have "on_command_complete cd event s = Inr s'" by simp
    then show ?thesis
    proof (cases rule: on_command_complete_cases)
      case (credit v)
      have "alarm_inv (s\<lparr>command_credits := CommandCompleteView.GetNumHciCommandPackets v\<rparr>)"
        using assms(1) by (simp add: alarm_inv_def)
      with credit(3) show ?thesis by (rule alarm_inv_send_next_command [rotated])
    next
      case (match v c f rest)
      have "alarm_inv (s\<lparr>command_credits := CommandCompleteView.GetNumHciCommandPackets v,
                effects := effects s @ [Invoke_on_complete f v],
                command_queue := rest, waiting_command := NONE, hci_timeout_alarm := None\<rparr>)"
        by (simp add: alarm_inv_def)
      with match(5) show ?thesis by (rule alarm_inv_send_next_command [rotated])
    qed
  next
    case cs
    with assms(2) have "on_command_status cd event s = Inr s'" by simp
    then show ?thesis
    proof (cases rule: on_command_status_cases)
      case (credit v)
      have "alarm_inv (s\<lparr>command_credits := CommandStatusView.GetNumHciCommandPackets v\<rparr>)"
        using assms(1) by (simp add: alarm_inv_def)
      with credit(3) show ?thesis by (rule alarm_inv_send_next_command [rotated])
    next
      case (match v c f rest)
      have "alarm_inv (s\<lparr>command_credits := CommandStatusView.GetNumHciCommandPackets v,
                effects := effects s @ [Invoke_on_status f v],
                command_queue := rest, waiting_command := NONE, hci_timeout_alarm := None\<rparr>)"
        by (simp add: alarm_inv_def)
      with match(5) show ?thesis by (rule alarm_inv_send_next_command [rotated])
    qed
  next
    case other
    from other_task_frame [OF assms(2) other] assms(1) show ?thesis
      by (simp add: alarm_inv_def)
  qed
qed

lemma alarm_inv_tasks:
  "alarm_inv s \<Longrightarrow> run_tasks cd ts s = Inr s' \<Longrightarrow> alarm_inv s'"
proof (induction ts arbitrary: s)
  case Nil
  then show ?case by simp
next
  case (Cons t ts)
  then show ?case
    by (auto split: sum.splits dest: alarm_inv_task)
qed

text \<open>
  C7. In any state that the machine reaches while a command is waited for (it has been
  sent and its response has not been handled), the alarm scheduled at the send is still
  pending, and when it fires the process aborts with the message that names the opcode
  waited for. The outcome is the abort alone: no state follows it.
\<close>

theorem timeout_aborts_with_waiting_opcode:
  assumes "run_tasks cd ts impl_init = Inr s" and "waiting_command s \<noteq> NONE"
  shows "hci_timeout_alarm s = Some (waiting_command s, kHciTimeoutMs)
       \<and> run_task cd Hci_timeout_alarm_fires s
           = Inl (Abort (Timed_out_waiting_for (waiting_command s)), effects s)"
proof -
  have "alarm_inv impl_init"
    by (simp add: alarm_inv_def impl_init_def)
  from alarm_inv_tasks [OF this assms(1)] assms(2)
  have "hci_timeout_alarm s = Some (waiting_command s, kHciTimeoutMs)"
    by (simp add: alarm_inv_def)
  then show ?thesis
    by (simp add: on_hci_timeout_def abort_def)
qed

theorem timeout_aborts_with_waiting_opcode_witness:
  "run_task wire_codec Hci_timeout_alarm_fires reset_in_flight
     = Inl (Abort (Timed_out_waiting_for 0x0C03), [sendHciCommand [0x03, 0x0C, 0x00]])"
proof -
  have run: "run_tasks wire_codec
       [Handle_enqueue_command_with_complete reset_command BindOnce_fail_if_reset_complete_not_success]
       impl_init = Inr reset_in_flight"
    by (simp add: handle_enqueue_command_with_complete_def
      send_next_command_def emit_def impl_init_def reset_in_flight_def
      queued_reset_def wire_codec_def reset_command_def opcode_le_def NONE_def
      kHciTimeoutMs_def Let_def)
  have w: "waiting_command reset_in_flight \<noteq> NONE"
    by (simp add: reset_in_flight_def NONE_def)
  have eff: "effects reset_in_flight = [sendHciCommand [0x03, 0x0C, 0x00]]"
    by (simp add: reset_in_flight_def)
  have wc: "waiting_command reset_in_flight = 0x0C03"
    by (simp add: reset_in_flight_def)
  from timeout_aborts_with_waiting_opcode [OF run w, THEN conjunct2]
  show ?thesis unfolding eff wc .
qed


subsection \<open>Credits while a command is waited for\<close>

lemma credits_inv_send_next_command:
  assumes "credits_inv s" and "send_next_command cd s = Inr s'"
  shows "credits_inv s'"
  using assms(2)
proof (cases rule: send_next_command_cases)
  case idle
  with assms(1) show ?thesis by simp
next
  case (sent op_code)
  then show ?thesis by (simp add: credits_inv_def)
qed

lemma run_enqueue_reset:
  "run_task wire_codec
     (Handle_enqueue_command_with_complete reset_command BindOnce_fail_if_reset_complete_not_success)
     impl_init = Inr reset_in_flight"
  by (simp add: handle_enqueue_command_with_complete_def
      send_next_command_def emit_def impl_init_def reset_in_flight_def
      queued_reset_def wire_codec_def reset_command_def opcode_le_def NONE_def
      kHciTimeoutMs_def Let_def)

lemma run_credit_status_in_flight:
  "run_task wire_codec (On_command_status credit_status_event) reset_in_flight
     = Inr (reset_in_flight\<lparr>command_credits := 1\<rparr>)"
proof -
  have "waiting_command (reset_in_flight\<lparr>command_credits := 1\<rparr>) \<noteq> NONE"
    by (simp add: reset_in_flight_def NONE_def)
  then show ?thesis
    by (simp add: on_command_status_def wire_credit_status Let_def send_next_command_def)
qed

text \<open>
  C1, as stated, fails: the reset is sent and waited for, a command status event with
  opcode \<open>NONE\<close> reports one credit, and after that task a command is still waited for and
  the credit counter is 1.
\<close>

theorem credits_zero_while_waiting_counterexample:
  "run_tasks wire_codec
     [Handle_enqueue_command_with_complete reset_command BindOnce_fail_if_reset_complete_not_success,
      On_command_status credit_status_event] impl_init
     = Inr (reset_in_flight\<lparr>command_credits := 1\<rparr>)
   \<and> waiting_command (reset_in_flight\<lparr>command_credits := 1\<rparr>) \<noteq> NONE
   \<and> command_credits (reset_in_flight\<lparr>command_credits := 1\<rparr>) \<noteq> 0"
proof -
  have "waiting_command (reset_in_flight\<lparr>command_credits := 1\<rparr>) \<noteq> NONE
      \<and> command_credits (reset_in_flight\<lparr>command_credits := 1\<rparr>) \<noteq> 0"
    by (simp add: reset_in_flight_def NONE_def)
  then show ?thesis
    by (simp add: run_enqueue_reset run_credit_status_in_flight del: run_task.simps)
qed

text \<open>
  C1, amended. Every task keeps the invariant that no credit is left while a command is
  waited for, except a command status or command complete event whose opcode is \<open>NONE\<close>
  that arrives while a command is waited for: that task sets the credit counter to the
  number it reports and changes nothing else.
\<close>

theorem credits_zero_unless_credit_grant:
  assumes "credits_inv s" and "run_task cd t s = Inr s'"
  shows "(credit_only cd t = None \<or> waiting_command s = NONE \<longrightarrow> credits_inv s')
       \<and> (\<forall>n. credit_only cd t = Some n \<and> waiting_command s \<noteq> NONE \<longrightarrow>
             s' = s\<lparr>command_credits := n\<rparr>)"
proof -
  consider (ec) cmd f where "t = Handle_enqueue_command_with_complete cmd f"
    | (es) cmd f where "t = Handle_enqueue_command_with_status cmd f"
    | (cc) event where "t = On_command_complete event"
    | (cs) event where "t = On_command_status event"
    | (other) "\<And>cmd f. t \<noteq> Handle_enqueue_command_with_complete cmd f"
        "\<And>cmd f. t \<noteq> Handle_enqueue_command_with_status cmd f"
        "\<And>event. t \<noteq> On_command_complete event"
        "\<And>event. t \<noteq> On_command_status event"
    by (cases t) auto
  then show ?thesis
  proof cases
    case ec
    have "credits_inv (s\<lparr>command_queue := command_queue s @ [CommandQueueEntry_on_complete cmd f]\<rparr>)"
      using assms(1) by (simp add: credits_inv_def)
    with assms(2) ec have "credits_inv s'"
      by (auto simp: handle_enqueue_command_with_complete_def dest: credits_inv_send_next_command)
    with ec show ?thesis by simp
  next
    case es
    have "credits_inv (s\<lparr>command_queue := command_queue s @ [CommandQueueEntry_on_status cmd f]\<rparr>)"
      using assms(1) by (simp add: credits_inv_def)
    with assms(2) es have "credits_inv s'"
      by (auto simp: handle_enqueue_command_with_status_def dest: credits_inv_send_next_command)
    with es show ?thesis by simp
  next
    case cc
    with assms(2) have "on_command_complete cd event s = Inr s'" by simp
    then show ?thesis
    proof (cases rule: on_command_complete_cases)
      case (credit v)
      let ?s1 = "s\<lparr>command_credits := CommandCompleteView.GetNumHciCommandPackets v\<rparr>"
      from credit cc have co: "credit_only cd t = Some (CommandCompleteView.GetNumHciCommandPackets v)"
        by simp
      have a: "waiting_command s = NONE \<longrightarrow> credits_inv s'"
      proof
        assume "waiting_command s = NONE"
        then have "credits_inv ?s1" by (simp add: credits_inv_def)
        with credit(3) show "credits_inv s'" by (rule credits_inv_send_next_command [rotated])
      qed
      have b: "waiting_command s \<noteq> NONE \<longrightarrow> s' = ?s1"
      proof
        assume "waiting_command s \<noteq> NONE"
        then have "send_next_command cd ?s1 = Inr ?s1"
          by (simp add: send_next_command_idle)
        with credit(3) show "s' = ?s1" by simp
      qed
      from a b co show ?thesis by simp
    next
      case (match v c f rest)
      have "credits_inv (s\<lparr>command_credits := CommandCompleteView.GetNumHciCommandPackets v,
                effects := effects s @ [Invoke_on_complete f v],
                command_queue := rest, waiting_command := NONE, hci_timeout_alarm := None\<rparr>)"
        by (simp add: credits_inv_def)
      with match(5) have "credits_inv s'" by (rule credits_inv_send_next_command [rotated])
      moreover from match cc have "credit_only cd t = None" by simp
      ultimately show ?thesis by simp
    qed
  next
    case cs
    with assms(2) have "on_command_status cd event s = Inr s'" by simp
    then show ?thesis
    proof (cases rule: on_command_status_cases)
      case (credit v)
      let ?s1 = "s\<lparr>command_credits := CommandStatusView.GetNumHciCommandPackets v\<rparr>"
      from credit cs have co: "credit_only cd t = Some (CommandStatusView.GetNumHciCommandPackets v)"
        by simp
      have a: "waiting_command s = NONE \<longrightarrow> credits_inv s'"
      proof
        assume "waiting_command s = NONE"
        then have "credits_inv ?s1" by (simp add: credits_inv_def)
        with credit(3) show "credits_inv s'" by (rule credits_inv_send_next_command [rotated])
      qed
      have b: "waiting_command s \<noteq> NONE \<longrightarrow> s' = ?s1"
      proof
        assume "waiting_command s \<noteq> NONE"
        then have "send_next_command cd ?s1 = Inr ?s1"
          by (simp add: send_next_command_idle)
        with credit(3) show "s' = ?s1" by simp
      qed
      from a b co show ?thesis by simp
    next
      case (match v c f rest)
      have "credits_inv (s\<lparr>command_credits := CommandStatusView.GetNumHciCommandPackets v,
                effects := effects s @ [Invoke_on_status f v],
                command_queue := rest, waiting_command := NONE, hci_timeout_alarm := None\<rparr>)"
        by (simp add: credits_inv_def)
      with match(5) have "credits_inv s'" by (rule credits_inv_send_next_command [rotated])
      moreover from match cs have "credit_only cd t = None" by simp
      ultimately show ?thesis by simp
    qed
  next
    case other
    from other_task_frame [OF assms(2) other] assms(1) have "credits_inv s'"
      by (simp add: credits_inv_def)
    moreover from other have "credit_only cd t = None"
      by (cases t) auto
    ultimately show ?thesis by simp
  qed
qed

theorem credits_zero_unless_credit_grant_witness:
  "command_credits reset_in_flight = 0
   \<and> run_task wire_codec (On_command_status credit_status_event) reset_in_flight
       = Inr (reset_in_flight\<lparr>command_credits := 1\<rparr>)"
proof -
  have i: "credits_inv impl_init"
    by (simp add: credits_inv_def impl_init_def)
  have n: "credit_only wire_codec
      (Handle_enqueue_command_with_complete reset_command BindOnce_fail_if_reset_complete_not_success)
      = None"
    by simp
  from credits_zero_unless_credit_grant [OF i run_enqueue_reset] n
  have a: "credits_inv reset_in_flight" by blast
  have c: "credit_only wire_codec (On_command_status credit_status_event) = Some 1"
    by (simp add: wire_credit_status)
  have w: "waiting_command reset_in_flight \<noteq> NONE"
    by (simp add: reset_in_flight_def NONE_def)
  from a w have z: "command_credits reset_in_flight = 0"
    by (simp add: credits_inv_def)
  obtain s' where r: "run_task wire_codec (On_command_status credit_status_event) reset_in_flight = Inr s'"
    using run_credit_status_in_flight by blast
  from credits_zero_unless_credit_grant [OF a r] c w
  have "s' = reset_in_flight\<lparr>command_credits := 1\<rparr>" by blast
  with r z show ?thesis by simp
qed

subsection \<open>Order of commands and callbacks\<close>

lemma prefix_nth: "prefix xs ys \<Longrightarrow> k < length xs \<Longrightarrow> xs ! k = ys ! k"
  by (auto simp: prefix_def nth_append)

lemma fifo_inv_enqueue:
  assumes "fifo_inv E s"
  shows "fifo_inv (E @ [e]) (s\<lparr>command_queue := command_queue s @ [e]\<rparr>)"
proof -
  from assms have "prefix (invoked_sinks (effects s)) (map sink_of E)"
    by (simp add: fifo_inv_def)
  then have "length (invoked_sinks (effects s)) \<le> length E"
    by (auto dest: prefix_length_le)
  with assms show ?thesis
    by (simp add: fifo_inv_def)
qed

lemma fifo_inv_send_next_command:
  assumes inv: "fifo_inv E s"
    and ops: "\<forall>e\<in>set E. opcode_of cd e \<noteq> Some NONE"
    and run: "send_next_command cd s = Inr s'"
  shows "fifo_inv E s'"
  using run
proof (cases rule: send_next_command_cases)
  case idle
  with inv show ?thesis by simp
next
  case (sent op_code)
  let ?n = "length (invoked_sinks (effects s))"
  let ?f = "\<lambda>e. Serialize (command e)"
  from inv sent(2) have m: "length (hal_commands (effects s)) = ?n"
    and q: "command_queue s = drop ?n E"
    and sinks: "prefix (invoked_sinks (effects s)) (map sink_of E)"
    and sends: "prefix (hal_commands (effects s)) (map ?f E)"
    by (simp_all add: fifo_inv_def)
  from q sent(3) have n: "?n < length E" by simp
  with q have hd: "hd (command_queue s) = E ! ?n"
    by (simp add: hd_drop_conv_nth)
  from n have "E ! ?n \<in> set E" by simp
  with ops hd sent(4) have op: "op_code \<noteq> NONE"
    by (auto simp: opcode_of_def)
  from n m have "length (hal_commands (effects s)) < length (map ?f E)" by simp
  with sends
  have "prefix (hal_commands (effects s) @ [map ?f E ! length (hal_commands (effects s))]) (map ?f E)"
    by (rule append_one_prefix)
  with m n hd have "prefix (hal_commands (effects s) @ [?f (hd (command_queue s))]) (map ?f E)"
    by simp
  then have "prefix (hal_commands (effects s')) (map ?f E)"
    using sent(5) by (simp add: hal_commands_append)
  moreover have "length (hal_commands (effects s')) = Suc ?n"
    using sent(5) m by (simp add: hal_commands_append)
  moreover have "invoked_sinks (effects s') = invoked_sinks (effects s)"
    using sent(5) by (simp add: invoked_sinks_append)
  moreover have "command_queue s' = command_queue s" "waiting_command s' = op_code"
    using sent(5) by simp_all
  ultimately show ?thesis
    using op q sinks by (simp add: fifo_inv_def)
qed

lemma fifo_inv_pop:
  assumes inv: "fifo_inv E s"
    and w: "waiting_command s \<noteq> NONE"
    and q: "command_queue s = e # rest"
    and x: "invoked_sinks [x] = [sink_of e]" "hal_commands [x] = []"
  shows "fifo_inv E (s\<lparr>command_credits := n, effects := effects s @ [x],
            command_queue := rest, waiting_command := NONE, hci_timeout_alarm := None\<rparr>)"
proof -
  let ?n = "length (invoked_sinks (effects s))"
  from inv w have m: "length (hal_commands (effects s)) = Suc ?n"
    and qd: "command_queue s = drop ?n E"
    and sinks: "prefix (invoked_sinks (effects s)) (map sink_of E)"
    and sends: "prefix (hal_commands (effects s)) (map (\<lambda>e. Serialize (command e)) E)"
    by (simp_all add: fifo_inv_def)
  from q qd have d: "drop ?n E = e # rest" by simp
  then have n: "?n < length E"
    by (cases "?n < length E") auto
  from d n have e: "E ! ?n = e" and rest: "rest = drop (Suc ?n) E"
    by (simp_all add: Cons_nth_drop_Suc [symmetric])
  from n have "?n < length (map sink_of E)" by simp
  with sinks
  have "prefix (invoked_sinks (effects s) @ [map sink_of E ! ?n]) (map sink_of E)"
    by (rule append_one_prefix)
  with n e have "prefix (invoked_sinks (effects s) @ [sink_of e]) (map sink_of E)"
    by simp
  then have "prefix (invoked_sinks (effects s @ [x])) (map sink_of E)"
    using x(1) by (simp add: invoked_sinks_append)
  moreover have "length (invoked_sinks (effects s @ [x])) = Suc ?n"
    using x(1) by (simp add: invoked_sinks_append)
  moreover have "hal_commands (effects s @ [x]) = hal_commands (effects s)"
    using x(2) by (simp add: hal_commands_append)
  ultimately show ?thesis
    using m sends rest by (simp add: fifo_inv_def)
qed

lemma fifo_inv_task:
  assumes inv: "fifo_inv E s"
    and run: "run_task cd t s = Inr s'"
    and ops: "\<forall>e\<in>set (E @ enqueued [t]). opcode_of cd e \<noteq> Some NONE"
  shows "fifo_inv (E @ enqueued [t]) s'"
proof -
  consider (ec) cmd f where "t = Handle_enqueue_command_with_complete cmd f"
    | (es) cmd f where "t = Handle_enqueue_command_with_status cmd f"
    | (cc) event where "t = On_command_complete event"
    | (cs) event where "t = On_command_status event"
    | (other) "\<And>cmd f. t \<noteq> Handle_enqueue_command_with_complete cmd f"
        "\<And>cmd f. t \<noteq> Handle_enqueue_command_with_status cmd f"
        "\<And>event. t \<noteq> On_command_complete event"
        "\<And>event. t \<noteq> On_command_status event"
    by (cases t) auto
  then show ?thesis
  proof cases
    case ec
    let ?e = "CommandQueueEntry_on_complete cmd f"
    from ec have en: "enqueued [t] = [?e]" by simp
    from inv have i: "fifo_inv (E @ [?e]) (s\<lparr>command_queue := command_queue s @ [?e]\<rparr>)"
      by (rule fifo_inv_enqueue)
    from run ec
    have r: "send_next_command cd (s\<lparr>command_queue := command_queue s @ [?e]\<rparr>) = Inr s'"
      by (simp add: handle_enqueue_command_with_complete_def)
    from ops en have o: "\<forall>e\<in>set (E @ [?e]). opcode_of cd e \<noteq> Some NONE"
      by simp
    from i o r show ?thesis
      unfolding en by (rule fifo_inv_send_next_command)
  next
    case es
    let ?e = "CommandQueueEntry_on_status cmd f"
    from es have en: "enqueued [t] = [?e]" by simp
    from inv have i: "fifo_inv (E @ [?e]) (s\<lparr>command_queue := command_queue s @ [?e]\<rparr>)"
      by (rule fifo_inv_enqueue)
    from run es
    have r: "send_next_command cd (s\<lparr>command_queue := command_queue s @ [?e]\<rparr>) = Inr s'"
      by (simp add: handle_enqueue_command_with_status_def)
    from ops en have o: "\<forall>e\<in>set (E @ [?e]). opcode_of cd e \<noteq> Some NONE"
      by simp
    from i o r show ?thesis
      unfolding en by (rule fifo_inv_send_next_command)
  next
    case cc
    then have en: "enqueued [t] = []" by simp
    from ops en have ops': "\<forall>e\<in>set E. opcode_of cd e \<noteq> Some NONE" by simp
    from run cc have "on_command_complete cd event s = Inr s'" by simp
    then have "fifo_inv E s'"
    proof (cases rule: on_command_complete_cases)
      case (credit v)
      from inv have "fifo_inv E (s\<lparr>command_credits := CommandCompleteView.GetNumHciCommandPackets v\<rparr>)"
        by (simp add: fifo_inv_def)
      then show ?thesis using ops' credit(3) by (rule fifo_inv_send_next_command)
    next
      case (match v c f rest)
      from match(2,3) have "waiting_command s \<noteq> NONE" by simp
      with inv have "fifo_inv E (s\<lparr>command_credits := CommandCompleteView.GetNumHciCommandPackets v,
                effects := effects s @ [Invoke_on_complete f v],
                command_queue := rest, waiting_command := NONE, hci_timeout_alarm := None\<rparr>)"
        using match(4) by (rule fifo_inv_pop) simp_all
      then show ?thesis using ops' match(5) by (rule fifo_inv_send_next_command)
    qed
    with en show ?thesis by simp
  next
    case cs
    then have en: "enqueued [t] = []" by simp
    from ops en have ops': "\<forall>e\<in>set E. opcode_of cd e \<noteq> Some NONE" by simp
    from run cs have "on_command_status cd event s = Inr s'" by simp
    then have "fifo_inv E s'"
    proof (cases rule: on_command_status_cases)
      case (credit v)
      from inv have "fifo_inv E (s\<lparr>command_credits := CommandStatusView.GetNumHciCommandPackets v\<rparr>)"
        by (simp add: fifo_inv_def)
      then show ?thesis using ops' credit(3) by (rule fifo_inv_send_next_command)
    next
      case (match v c f rest)
      from match(2,3) have "waiting_command s \<noteq> NONE" by simp
      with inv have "fifo_inv E (s\<lparr>command_credits := CommandStatusView.GetNumHciCommandPackets v,
                effects := effects s @ [Invoke_on_status f v],
                command_queue := rest, waiting_command := NONE, hci_timeout_alarm := None\<rparr>)"
        using match(4) by (rule fifo_inv_pop) simp_all
      then show ?thesis using ops' match(5) by (rule fifo_inv_send_next_command)
    qed
    with en show ?thesis by simp
  next
    case other
    then have en: "enqueued [t] = []" by (cases t) auto
    from other_task_frame [OF run other] inv have "fifo_inv E s'"
      by (simp add: fifo_inv_def)
    with en show ?thesis by simp
  qed
qed

lemma enqueued_Cons: "enqueued (t # ts) = enqueued [t] @ enqueued ts"
  by (cases t) simp_all

lemma fifo_inv_tasks:
  assumes "fifo_inv E s" and "run_tasks cd ts s = Inr s'"
    and "\<forall>e\<in>set (E @ enqueued ts). opcode_of cd e \<noteq> Some NONE"
  shows "fifo_inv (E @ enqueued ts) s'"
  using assms
proof (induction ts arbitrary: E s)
  case Nil
  then show ?case by simp
next
  case (Cons t ts)
  from Cons.prems(2) obtain s1 where t: "run_task cd t s = Inr s1"
    and ts: "run_tasks cd ts s1 = Inr s'"
    by (auto split: sum.splits)
  from Cons.prems(3) have ops: "\<forall>e\<in>set ((E @ enqueued [t]) @ enqueued ts). opcode_of cd e \<noteq> Some NONE"
    by (subst (asm) enqueued_Cons) simp
  then have "\<forall>e\<in>set (E @ enqueued [t]). opcode_of cd e \<noteq> Some NONE" by auto
  with Cons.prems(1) t have "fifo_inv (E @ enqueued [t]) s1" by (rule fifo_inv_task)
  from Cons.IH [OF this ts ops] show ?case
    by (subst enqueued_Cons) simp
qed

text \<open>
  C5, as stated, fails for a command whose opcode is \<open>NONE\<close>: once it is sent no command is
  waited for, so that the next credit sends it again. Here the second command handed to the
  HAL is the first one enqueued, not the second.
\<close>

theorem fifo_dispatch_counterexample:
  "hal_commands (effects_of (run_tasks wire_codec nop_then_reset impl_init))
     = [[0x00, 0x00, 0x00], [0x00, 0x00, 0x00]]
   \<and> map (\<lambda>e. Serialize (command e)) (enqueued nop_then_reset)
     = [[0x00, 0x00, 0x00], [0x03, 0x0C, 0x00]]
   \<and> map (opcode_of wire_codec) (enqueued nop_then_reset) = [Some NONE, Some 0x0C03]
   \<and> CommandPacketView_Create wire_codec
        (hal_commands (effects_of (run_tasks wire_codec nop_then_reset impl_init)) ! 1)
      \<noteq> opcode_of wire_codec (enqueued nop_then_reset ! 1)"
proof -
  have 1: "run_task wire_codec
      (Handle_enqueue_command_with_complete nop_command (Client_on_complete 3)) impl_init
    = Inr (impl_init\<lparr>command_queue := [CommandQueueEntry_on_complete nop_command (Client_on_complete 3)],
         waiting_command := NONE, command_credits := 0, hci_timeout_alarm := Some (NONE, 2000),
         effects := [sendHciCommand [0x00, 0x00, 0x00]]\<rparr>)"
    by (simp add: handle_enqueue_command_with_complete_def
      send_next_command_def emit_def impl_init_def
      wire_codec_def nop_command_def opcode_le_def NONE_def
      kHciTimeoutMs_def Let_def)
  have 2: "run_task wire_codec
      (Handle_enqueue_command_with_complete reset_command (Client_on_complete 2))
      (impl_init\<lparr>command_queue := [CommandQueueEntry_on_complete nop_command (Client_on_complete 3)],
         waiting_command := NONE, command_credits := 0, hci_timeout_alarm := Some (NONE, 2000),
         effects := [sendHciCommand [0x00, 0x00, 0x00]]\<rparr>)
    = Inr (impl_init\<lparr>command_queue := [CommandQueueEntry_on_complete nop_command (Client_on_complete 3),
           CommandQueueEntry_on_complete reset_command (Client_on_complete 2)],
         waiting_command := NONE, command_credits := 0, hci_timeout_alarm := Some (NONE, 2000),
         effects := [sendHciCommand [0x00, 0x00, 0x00]]\<rparr>)"
    by (simp add: handle_enqueue_command_with_complete_def send_next_command_def impl_init_def)
  have 3: "run_task wire_codec (On_command_status credit_status_event)
      (impl_init\<lparr>command_queue := [CommandQueueEntry_on_complete nop_command (Client_on_complete 3),
           CommandQueueEntry_on_complete reset_command (Client_on_complete 2)],
         waiting_command := NONE, command_credits := 0, hci_timeout_alarm := Some (NONE, 2000),
         effects := [sendHciCommand [0x00, 0x00, 0x00]]\<rparr>)
    = Inr (impl_init\<lparr>command_queue := [CommandQueueEntry_on_complete nop_command (Client_on_complete 3),
           CommandQueueEntry_on_complete reset_command (Client_on_complete 2)],
         waiting_command := NONE, command_credits := 0, hci_timeout_alarm := Some (NONE, 2000),
         effects := [sendHciCommand [0x00, 0x00, 0x00], sendHciCommand [0x00, 0x00, 0x00]]\<rparr>)"
    by (simp add: on_command_status_def credit_status_event_def
      send_next_command_def emit_def impl_init_def
      wire_codec_def nop_command_def opcode_le_def NONE_def
      kHciTimeoutMs_def Let_def)
  have run: "run_tasks wire_codec nop_then_reset impl_init
    = Inr (impl_init\<lparr>command_queue := [CommandQueueEntry_on_complete nop_command (Client_on_complete 3),
           CommandQueueEntry_on_complete reset_command (Client_on_complete 2)],
         waiting_command := NONE, command_credits := 0, hci_timeout_alarm := Some (NONE, 2000),
         effects := [sendHciCommand [0x00, 0x00, 0x00], sendHciCommand [0x00, 0x00, 0x00]]\<rparr>)"
    unfolding nop_then_reset_def by (simp add: 1 2 3 del: run_task.simps)
  show ?thesis
    unfolding run
    by (simp add: effects_of_def nop_then_reset_def opcode_of_def wire_codec_def
        nop_command_def reset_command_def opcode_le_def NONE_def)
qed

text \<open>
  C5, amended. Let no enqueued command have the opcode \<open>NONE\<close>. Then, however the enqueues
  are interleaved with events and other tasks, the k-th command handed to the HAL is the
  serialized command of the k-th entry enqueued (and carries its opcode), the k-th response
  callback invoked is the callback of the k-th entry enqueued, and no callback is invoked
  before its command is sent.
\<close>

theorem fifo_dispatch:
  assumes "run_tasks cd ts impl_init = Inr s"
    and "\<forall>e\<in>set (enqueued ts). opcode_of cd e \<noteq> Some NONE"
  shows "(\<forall>k < length (hal_commands (effects s)).
            k < length (enqueued ts)
          \<and> hal_commands (effects s) ! k = Serialize (command (enqueued ts ! k))
          \<and> CommandPacketView_Create cd (hal_commands (effects s) ! k)
              = opcode_of cd (enqueued ts ! k))
       \<and> (\<forall>k < length (invoked_sinks (effects s)).
            k < length (enqueued ts)
          \<and> invoked_sinks (effects s) ! k = sink_of (enqueued ts ! k))
       \<and> length (invoked_sinks (effects s)) \<le> length (hal_commands (effects s))"
proof -
  have "fifo_inv [] impl_init"
    by (simp add: fifo_inv_def impl_init_def)
  from fifo_inv_tasks [OF this assms(1)] assms(2)
  have inv: "fifo_inv (enqueued ts) s" by simp
  let ?E = "enqueued ts"
  let ?f = "\<lambda>e. Serialize (command e)"
  from inv have sends: "prefix (hal_commands (effects s)) (map ?f ?E)"
    and sinks: "prefix (invoked_sinks (effects s)) (map sink_of ?E)"
    and nm: "length (invoked_sinks (effects s)) \<le> length (hal_commands (effects s))"
    by (simp_all add: fifo_inv_def split: if_splits)
  from sends have m: "length (hal_commands (effects s)) \<le> length ?E"
    by (auto dest: prefix_length_le)
  from sinks have n: "length (invoked_sinks (effects s)) \<le> length ?E"
    by (auto dest: prefix_length_le)
  have a: "k < length ?E \<and> hal_commands (effects s) ! k = Serialize (command (?E ! k))"
    if "k < length (hal_commands (effects s))" for k
  proof -
    from that m have k: "k < length ?E" by simp
    from sends that have "hal_commands (effects s) ! k = map ?f ?E ! k"
      by (rule prefix_nth)
    with k show ?thesis by simp
  qed
  have b: "k < length ?E \<and> invoked_sinks (effects s) ! k = sink_of (?E ! k)"
    if "k < length (invoked_sinks (effects s))" for k
  proof -
    from that n have k: "k < length ?E" by simp
    from sinks that have "invoked_sinks (effects s) ! k = map sink_of ?E ! k"
      by (rule prefix_nth)
    with k show ?thesis by simp
  qed
  from a b nm show ?thesis by (simp add: opcode_of_def)
qed

theorem fifo_dispatch_witness:
  "hal_commands (effects disconnect_after_reset) ! 1
     = Serialize (command (enqueued reset_then_disconnect ! 1))
   \<and> hal_commands (effects disconnect_after_reset) ! 0
     = Serialize (command (enqueued reset_then_disconnect ! 0))
   \<and> invoked_sinks (effects disconnect_after_reset) ! 0
     = sink_of (enqueued reset_then_disconnect ! 0)"
proof -
  have 1: "run_task wire_codec
      (Handle_enqueue_command_with_status disconnect_command (Client_on_status 7)) reset_in_flight
    = Inr (reset_in_flight\<lparr>command_queue := command_queue reset_in_flight
         @ [CommandQueueEntry_on_status disconnect_command (Client_on_status 7)]\<rparr>)"
    by (simp add: handle_enqueue_command_with_status_def send_next_command_def reset_in_flight_def)
  have 2: "run_task wire_codec (On_command_complete reset_complete_event)
      (reset_in_flight\<lparr>command_queue := command_queue reset_in_flight
         @ [CommandQueueEntry_on_status disconnect_command (Client_on_status 7)]\<rparr>)
    = Inr disconnect_after_reset"
    by (simp add: on_command_complete_def reset_complete_event_def
      send_next_command_def emit_def impl_init_def reset_in_flight_def queued_reset_def
      disconnect_after_reset_def disconnect_in_flight_def
      wire_codec_def disconnect_command_def opcode_le_def NONE_def
      kHciTimeoutMs_def Let_def)
  have run: "run_tasks wire_codec reset_then_disconnect impl_init = Inr disconnect_after_reset"
    unfolding reset_then_disconnect_def
    by (simp add: run_enqueue_reset 1 2 del: run_task.simps)
  have ops: "\<forall>e\<in>set (enqueued reset_then_disconnect). opcode_of wire_codec e \<noteq> Some NONE"
    by (simp add: reset_then_disconnect_def opcode_of_def wire_codec_def reset_command_def
        disconnect_command_def opcode_le_def NONE_def)
  have len: "1 < length (hal_commands (effects disconnect_after_reset))"
    "0 < length (hal_commands (effects disconnect_after_reset))"
    "0 < length (invoked_sinks (effects disconnect_after_reset))"
    by (simp_all add: disconnect_after_reset_def)
  from fifo_dispatch [OF run ops] len show ?thesis by blast
qed

subsection \<open>Dispatch of events\<close>

lemma run_tasks_append:
  "run_tasks cd (xs @ ys) s
     = (case run_tasks cd xs s of Inl e \<Rightarrow> Inl e | Inr s' \<Rightarrow> run_tasks cd ys s')"
  by (induction xs arbitrary: s) (simp_all split: sum.splits)

lemma run_tasks_append_Inr:
  "run_tasks cd xs s = Inr s1 \<Longrightarrow> run_tasks cd (xs @ ys) s = run_tasks cd ys s1"
  by (simp add: run_tasks_append)

lemma event_handlers_send_next_command:
  assumes "send_next_command cd s = Inr s'"
  shows "event_handlers s' = event_handlers s"
  using assms by (cases rule: send_next_command_cases) simp_all

lemma event_handlers_task:
  assumes run: "run_task cd t s = Inr s'"
    and reg: "event_handlers s c = Some h"
    and t: "t \<noteq> Handle_unregister_event_handler c"
  shows "event_handlers s' c = Some h"
proof (cases t)
  case (Handle_enqueue_command_with_complete cmd f)
  with run have "event_handlers s' = event_handlers s"
    by (auto simp: handle_enqueue_command_with_complete_def
        dest: event_handlers_send_next_command)
  with reg show ?thesis by simp
next
  case (Handle_enqueue_command_with_status cmd f)
  with run have "event_handlers s' = event_handlers s"
    by (auto simp: handle_enqueue_command_with_status_def
        dest: event_handlers_send_next_command)
  with reg show ?thesis by simp
next
  case (On_command_complete event)
  with run have "on_command_complete cd event s = Inr s'" by simp
  then have "event_handlers s' = event_handlers s"
    by (cases rule: on_command_complete_cases)
      (auto dest: event_handlers_send_next_command)
  with reg show ?thesis by simp
next
  case (On_command_status event)
  with run have "on_command_status cd event s = Inr s'" by simp
  then have "event_handlers s' = event_handlers s"
    by (cases rule: on_command_status_cases)
      (auto dest: event_handlers_send_next_command)
  with reg show ?thesis by simp
next
  case (Handle_register_event_handler c' h')
  with run reg show ?thesis
    by (auto simp: handle_register_event_handler_def abort_def split: if_splits)
next
  case (Handle_unregister_event_handler c')
  with run reg t show ?thesis
    by (auto simp: handle_unregister_event_handler_def undefined_behaviour_def
        split: option.splits)
qed (use run reg in \<open>auto simp: handle_register_le_event_handler_def
      handle_unregister_le_event_handler_def on_hci_event_def on_le_meta_event_def
      drop_event_def fail_if_reset_complete_not_success_def on_hci_timeout_def
      abort_def undefined_behaviour_def emit_def Let_def split: option.splits if_splits\<close>)

lemma event_handlers_tasks:
  assumes "run_tasks cd ts s = Inr s'" and "event_handlers s c = Some h"
    and "Handle_unregister_event_handler c \<notin> set ts"
  shows "event_handlers s' c = Some h"
  using assms
proof (induction ts arbitrary: s)
  case Nil
  then show ?case by simp
next
  case (Cons t ts)
  from Cons.prems(1) obtain s1 where t: "run_task cd t s = Inr s1"
    and ts: "run_tasks cd ts s1 = Inr s'"
    by (auto split: sum.splits)
  from Cons.prems(3) have ne: "t \<noteq> Handle_unregister_event_handler c"
    and rest: "Handle_unregister_event_handler c \<notin> set ts"
    by auto
  from t Cons.prems(2) ne have "event_handlers s1 c = Some h"
    by (rule event_handlers_task)
  with ts show ?case using rest by (rule Cons.IH)
qed

lemma Start_registers_on_le_meta_event:
  assumes "run_tasks cd (Start reset) impl_init = Inr s"
  shows "event_handlers s LE_META_EVENT = Some BindOn_on_le_meta_event"
proof -
  let ?regs = "RegisterEventHandler COMMAND_COMPLETE BindOn_on_command_complete
     @ RegisterEventHandler COMMAND_STATUS BindOn_on_command_status
     @ RegisterEventHandler LE_META_EVENT BindOn_on_le_meta_event"
  let ?rest = "RegisterEventHandler PAGE_SCAN_REPETITION_MODE_CHANGE BindOn_drop
     @ RegisterEventHandler MAX_SLOTS_CHANGE BindOn_drop
     @ RegisterEventHandler VENDOR_SPECIFIC BindOn_drop
     @ EnqueueCommand_on_complete reset BindOnce_fail_if_reset_complete_not_success"
  have st: "Start reset = ?regs @ ?rest"
    by (simp add: Start_def)
  have regs: "run_tasks cd ?regs impl_init
      = Inr (impl_init\<lparr>event_handlers :=
          [COMMAND_COMPLETE \<mapsto> BindOn_on_command_complete,
           COMMAND_STATUS \<mapsto> BindOn_on_command_status,
           LE_META_EVENT \<mapsto> BindOn_on_le_meta_event]\<rparr>)"
    by (simp add: RegisterEventHandler_def handle_register_event_handler_def impl_init_def)
  from regs have "run_tasks cd (?regs @ ?rest) impl_init = run_tasks cd ?rest
      (impl_init\<lparr>event_handlers :=
          [COMMAND_COMPLETE \<mapsto> BindOn_on_command_complete,
           COMMAND_STATUS \<mapsto> BindOn_on_command_status,
           LE_META_EVENT \<mapsto> BindOn_on_le_meta_event]\<rparr>)"
    by (rule run_tasks_append_Inr)
  with assms have rest: "run_tasks cd ?rest
      (impl_init\<lparr>event_handlers :=
          [COMMAND_COMPLETE \<mapsto> BindOn_on_command_complete,
           COMMAND_STATUS \<mapsto> BindOn_on_command_status,
           LE_META_EVENT \<mapsto> BindOn_on_le_meta_event]\<rparr>) = Inr s"
    unfolding st by simp
  have reg: "event_handlers (impl_init\<lparr>event_handlers :=
          [COMMAND_COMPLETE \<mapsto> BindOn_on_command_complete,
           COMMAND_STATUS \<mapsto> BindOn_on_command_status,
           LE_META_EVENT \<mapsto> BindOn_on_le_meta_event]\<rparr>) LE_META_EVENT
      = Some BindOn_on_le_meta_event"
    by simp
  have ne: "Handle_unregister_event_handler LE_META_EVENT \<notin> set ?rest"
    by (simp add: RegisterEventHandler_def EnqueueCommand_on_complete_def)
  from rest reg ne show ?thesis
    by (rule event_handlers_tasks)
qed

text \<open>
  C8, as stated, fails: \<^verbatim>\<open>on_hci_event\<close> has no case of its own for \<open>LE_META_EVENT\<close>. Once
  the handler that \<^verbatim>\<open>Start\<close> registers for that code is unregistered, an LE meta event is
  not parsed again: it is dropped with a line of debug log, and the missing handler of its
  subevent aborts nothing.
\<close>

theorem le_meta_event_dispatch_counterexample:
  "run_tasks wire_codec (Start reset_command @ UnregisterEventHandler LE_META_EVENT) impl_init
     = Inr started_without_le_meta
   \<and> subevent_handlers started_without_le_meta 0x01 = None
   \<and> on_hci_event le_connection_complete_event started_without_le_meta
     = Inr (started_without_le_meta\<lparr>effects :=
         [sendHciCommand [0x03, 0x0C, 0x00],
          LOG_DEBUG_Dropping_unregistered_event LE_META_EVENT]\<rparr>)"
proof -
  have "run_task wire_codec (Handle_unregister_event_handler LE_META_EVENT) started
      = Inr started_without_le_meta"
    by (simp add: handle_unregister_event_handler_def started_def started_without_le_meta_def
        fun_upd_twist)
  then have "run_tasks wire_codec (Start reset_command @ UnregisterEventHandler LE_META_EVENT) impl_init
     = Inr started_without_le_meta"
    by (simp add: run_tasks_append Start_runs UnregisterEventHandler_def del: run_task.simps)
  moreover have "subevent_handlers started_without_le_meta 0x01 = None"
    by (simp add: started_without_le_meta_def reset_in_flight_def queued_reset_def impl_init_def)
  moreover have "on_hci_event le_connection_complete_event started_without_le_meta
     = Inr (started_without_le_meta\<lparr>effects :=
         [sendHciCommand [0x03, 0x0C, 0x00],
          LOG_DEBUG_Dropping_unregistered_event LE_META_EVENT]\<rparr>)"
    by (simp add: on_hci_event_def emit_def le_connection_complete_event_def
        started_without_le_meta_def reset_in_flight_def)
  ultimately show ?thesis by simp
qed

text \<open>
  C8, amended. \<^verbatim>\<open>on_hci_event\<close> looks every event code, \<open>LE_META_EVENT\<close> included, up in
  \<open>event_handlers\<close>: the handler of the code is invoked with the event when there is one, and
  otherwise the event is dropped with a line of debug log and nothing else. In every state
  reached through \<^verbatim>\<open>Start\<close> and tasks that do not unregister \<open>LE_META_EVENT\<close>, the handler of
  an LE meta event is the one bound to \<^verbatim>\<open>on_le_meta_event\<close>. That method parses the event
  again and looks its subevent code up in \<open>subevent_handlers\<close>: without a handler there the
  process aborts, with one the handler is invoked with the LE view.
\<close>

theorem hci_event_dispatch:
  "(event_handlers s (GetEventCode event) = None \<longrightarrow>
      on_hci_event event s
        = Inr (s\<lparr>effects := effects s
                 @ [LOG_DEBUG_Dropping_unregistered_event (GetEventCode event)]\<rparr>))
   \<and> (\<forall>h. event_handlers s (GetEventCode event) = Some h \<longrightarrow>
      on_hci_event event s
        = Inr (s\<lparr>effects := effects s @ [Invoke_event_handler h event]\<rparr>))
   \<and> (run_tasks cd (Start reset @ ts) impl_init = Inr s0
      \<and> Handle_unregister_event_handler LE_META_EVENT \<notin> set ts
      \<and> GetEventCode event = LE_META_EVENT \<longrightarrow>
        on_hci_event event s0
          = Inr (s0\<lparr>effects := effects s0
                   @ [Invoke_event_handler BindOn_on_le_meta_event event]\<rparr>)
      \<and> event_callback_task BindOn_on_le_meta_event event = Some (On_le_meta_event event))
   \<and> (\<forall>v. LeMetaEventView_Create cd event = Some v \<longrightarrow>
        (subevent_handlers s' (GetSubeventCode v) = None \<longrightarrow>
           run_task cd (On_le_meta_event event) s'
             = Inl (Abort (Unhandled_le_event (GetSubeventCode v)), effects s'))
      \<and> (\<forall>h. subevent_handlers s' (GetSubeventCode v) = Some h \<longrightarrow>
           run_task cd (On_le_meta_event event) s'
             = Inr (s'\<lparr>effects := effects s' @ [Invoke_subevent_handler h v]\<rparr>)))"
proof (intro conjI impI allI)
  assume "event_handlers s (GetEventCode event) = None"
  then show "on_hci_event event s
        = Inr (s\<lparr>effects := effects s
                 @ [LOG_DEBUG_Dropping_unregistered_event (GetEventCode event)]\<rparr>)"
    by (simp add: on_hci_event_def emit_def)
next
  fix h assume "event_handlers s (GetEventCode event) = Some h"
  then show "on_hci_event event s
        = Inr (s\<lparr>effects := effects s @ [Invoke_event_handler h event]\<rparr>)"
    by (simp add: on_hci_event_def emit_def)
next
  assume a: "run_tasks cd (Start reset @ ts) impl_init = Inr s0
      \<and> Handle_unregister_event_handler LE_META_EVENT \<notin> set ts
      \<and> GetEventCode event = LE_META_EVENT"
  then obtain s1 where s1: "run_tasks cd (Start reset) impl_init = Inr s1"
    and ts: "run_tasks cd ts s1 = Inr s0"
    by (auto simp: run_tasks_append split: sum.splits)
  from s1 have "event_handlers s1 LE_META_EVENT = Some BindOn_on_le_meta_event"
    by (rule Start_registers_on_le_meta_event)
  with ts a have "event_handlers s0 LE_META_EVENT = Some BindOn_on_le_meta_event"
    by (auto intro: event_handlers_tasks)
  with a show "on_hci_event event s0
          = Inr (s0\<lparr>effects := effects s0
                   @ [Invoke_event_handler BindOn_on_le_meta_event event]\<rparr>)"
    by (simp add: on_hci_event_def emit_def)
next
  show "event_callback_task BindOn_on_le_meta_event event = Some (On_le_meta_event event)"
    by simp
next
  fix v assume "LeMetaEventView_Create cd event = Some v"
    and "subevent_handlers s' (GetSubeventCode v) = None"
  then show "run_task cd (On_le_meta_event event) s'
             = Inl (Abort (Unhandled_le_event (GetSubeventCode v)), effects s')"
    by (simp add: on_le_meta_event_def abort_def)
next
  fix v h assume "LeMetaEventView_Create cd event = Some v"
    and "subevent_handlers s' (GetSubeventCode v) = Some h"
  then show "run_task cd (On_le_meta_event event) s'
             = Inr (s'\<lparr>effects := effects s' @ [Invoke_subevent_handler h v]\<rparr>)"
    by (simp add: on_le_meta_event_def emit_def)
qed

lemma wire_le_connection_complete:
  "LeMetaEventView_Create wire_codec le_connection_complete_event
     = Some \<lparr>GetSubeventCode = 0x01, GetLePayload = [0x00]\<rparr>"
  by (simp add: wire_codec_def le_connection_complete_event_def)

theorem hci_event_dispatch_witness:
  "on_hci_event le_connection_complete_event started
     = Inr (started\<lparr>effects := [sendHciCommand [0x03, 0x0C, 0x00],
         Invoke_event_handler BindOn_on_le_meta_event le_connection_complete_event]\<rparr>)
   \<and> run_task wire_codec (On_le_meta_event le_connection_complete_event) started
     = Inl (Abort (Unhandled_le_event 0x01), [sendHciCommand [0x03, 0x0C, 0x00]])
   \<and> run_task wire_codec (On_le_meta_event le_connection_complete_event) started_le
     = Inr (started_le\<lparr>effects := [sendHciCommand [0x03, 0x0C, 0x00],
         Invoke_subevent_handler (Client_le_event_handler 3)
           \<lparr>GetSubeventCode = 0x01, GetLePayload = [0x00]\<rparr>]\<rparr>)
   \<and> on_hci_event \<lparr>GetEventCode = EventCode_other 0x05, GetPayload = []\<rparr> started
     = Inr (started\<lparr>effects := [sendHciCommand [0x03, 0x0C, 0x00],
         LOG_DEBUG_Dropping_unregistered_event (EventCode_other 0x05)]\<rparr>)
   \<and> on_hci_event disconnect_status_event started
     = Inr (started\<lparr>effects := [sendHciCommand [0x03, 0x0C, 0x00],
         Invoke_event_handler BindOn_on_command_status disconnect_status_event]\<rparr>)"
proof -
  have run: "run_tasks wire_codec (Start reset_command @ []) impl_init = Inr started
      \<and> Handle_unregister_event_handler LE_META_EVENT \<notin> set []
      \<and> GetEventCode le_connection_complete_event = LE_META_EVENT"
    by (simp add: Start_runs le_connection_complete_event_def)
  have none: "subevent_handlers started (GetSubeventCode \<lparr>GetSubeventCode = 0x01, GetLePayload = [0x00]\<rparr>) = None"
    by (simp add: started_def reset_in_flight_def queued_reset_def impl_init_def)
  have some: "subevent_handlers started_le (GetSubeventCode \<lparr>GetSubeventCode = 0x01, GetLePayload = [0x00]\<rparr>)
      = Some (Client_le_event_handler 3)"
    by (simp add: started_le_def)
  have eff: "effects started = [sendHciCommand [0x03, 0x0C, 0x00]]"
    by (simp add: started_def reset_in_flight_def)
  have eff_le: "effects started_le = [sendHciCommand [0x03, 0x0C, 0x00]]"
    by (simp add: started_le_def started_def reset_in_flight_def)
  have other: "event_handlers started (GetEventCode \<lparr>GetEventCode = EventCode_other 0x05, GetPayload = []\<rparr>) = None"
    by (simp add: started_def reset_in_flight_def queued_reset_def impl_init_def)
  have status: "event_handlers started (GetEventCode disconnect_status_event) = Some BindOn_on_command_status"
    by (simp add: disconnect_status_event_def started_def)
  from hci_event_dispatch
    [of started le_connection_complete_event wire_codec reset_command "[]" started started]
    run wire_le_connection_complete none
  have 1: "on_hci_event le_connection_complete_event started
     = Inr (started\<lparr>effects := effects started
         @ [Invoke_event_handler BindOn_on_le_meta_event le_connection_complete_event]\<rparr>)
   \<and> run_task wire_codec (On_le_meta_event le_connection_complete_event) started
     = Inl (Abort (Unhandled_le_event 0x01), effects started)"
    by simp
  from hci_event_dispatch
    [of started le_connection_complete_event wire_codec reset_command "[]" started started_le]
    wire_le_connection_complete some
  have 2: "run_task wire_codec (On_le_meta_event le_connection_complete_event) started_le
     = Inr (started_le\<lparr>effects := effects started_le
         @ [Invoke_subevent_handler (Client_le_event_handler 3)
              \<lparr>GetSubeventCode = 0x01, GetLePayload = [0x00]\<rparr>]\<rparr>)"
    by simp
  from hci_event_dispatch
    [of started "\<lparr>GetEventCode = EventCode_other 0x05, GetPayload = []\<rparr>" wire_codec
        reset_command "[]" started started]
    other
  have 3: "on_hci_event \<lparr>GetEventCode = EventCode_other 0x05, GetPayload = []\<rparr> started
     = Inr (started\<lparr>effects := effects started
         @ [LOG_DEBUG_Dropping_unregistered_event (EventCode_other 0x05)]\<rparr>)"
    by simp
  from hci_event_dispatch
    [of started disconnect_status_event wire_codec reset_command "[]" started started]
    status
  have 4: "on_hci_event disconnect_status_event started
     = Inr (started\<lparr>effects := effects started
         @ [Invoke_event_handler BindOn_on_command_status disconnect_status_event]\<rparr>)"
    by simp
  from 1 2 3 4 show ?thesis unfolding eff eff_le by simp
qed

end
